theory Spec2Isabelle
  imports Complex_Main
begin

section \<open>Values shared by the dashboard module\<close>

text \<open>
  Strings are lists of 8-bit characters. A WSGI server hands \<open>PATH_INFO\<close> to the
  application as a native string holding the request bytes decoded as latin-1, so every
  character of a request path is one \<open>char\<close>. Byte strings are lists of the same type.
\<close>

type_synonym bytes = "char list"

text \<open>
  What a Python statement can raise. \<open>Error\<close> stands for an instance of (a subclass of)
  \<open>Exception\<close>, with the name of its class and its message; \<open>Exit\<close> stands for a
  \<open>BaseException\<close> that is not an \<open>Exception\<close> (\<open>SystemExit\<close>, \<open>KeyboardInterrupt\<close>,
  \<open>GeneratorExit\<close>), which \<open>except Exception\<close> and \<open>contextlib.suppress(Exception)\<close>
  let through.
\<close>

datatype exn = Error string string | Exit string

text \<open>
  A Python object is its identity (what \<open>id(obj)\<close> returns, a natural number that is
  fixed for the life of the object) together with its content.
\<close>

datatype 'c obj = Obj (py_id: nat) (content: 'c)

text \<open>\<open>str\<close> on integers: the decimal digits, most significant first.\<close>

definition digit_char :: "nat \<Rightarrow> char" where
  "digit_char d = char_of (48 + d)"

fun str_nat :: "nat \<Rightarrow> string" where
  "str_nat n = (if n < 10 then [digit_char n] else str_nat (n div 10) @ [digit_char (n mod 10)])"

declare str_nat.simps [simp del]

definition str_int :: "int \<Rightarrow> string" where
  "str_int i = (if i < 0 then CHR ''-'' # str_nat (nat (- i)) else str_nat (nat i))"

text \<open>
  \<open>_build_path(path, base_url=None)\<close>: the test \<open>if base_url\<close> is Python truthiness,
  false for \<open>None\<close> and for the empty string.
\<close>

definition truthy :: "string option \<Rightarrow> bool" where
  "truthy b = (case b of None \<Rightarrow> False | Some s \<Rightarrow> s \<noteq> [])"

definition build_path :: "string \<Rightarrow> string option \<Rightarrow> string" where
  "build_path path base =
     (case base of
        None \<Rightarrow> path
      | Some b \<Rightarrow> if truthy (Some b) then b @ ''/'' @ path else path)"

text \<open>\<open>s.startswith(p)\<close>.\<close>

definition startswith :: "string \<Rightarrow> string \<Rightarrow> bool" where
  "startswith s p = (take (length p) s = p)"

section \<open>The dispatcher's state\<close>

text \<open>
  The gevent server stored under \<open>config["server"]\<close>: the address it was created for
  and whether \<open>stop()\<close> has been called on it.
\<close>

record WSGIServer =
  address :: "string \<times> int"
  stopped :: bool

definition server_stop :: "WSGIServer \<Rightarrow> WSGIServer" where
  "server_stop s = s\<lparr>stopped := True\<rparr>"

text \<open>
  The Dash application the session factory returns: its Flask server \<open>app.server\<close> (the
  WSGI callable the pool keeps, of an abstract type \<open>'w\<close>) and the two
  \<open>serve_locally\<close> switches that \<open>register\<close> sets.
\<close>

record 'w Dash =
  server :: 'w
  css_serve_locally :: bool
  scripts_serve_locally :: bool

text \<open>
  Regular expressions come from Python's \<open>re\<close>, a library outside the module. A
  compiled pattern is modelled by what \<open>re.search\<close> does with it: for each subject
  string, the groups of the first match at the leftmost position that has one (the text
  each numbered group captured), or \<open>None\<close> when nothing matches. \<open>re.compile\<close> is
  a parameter of the functions that call it: given the pattern text it returns the
  compiled pattern or raises \<open>re.error\<close>.
\<close>

type_synonym caps = "(nat \<times> string) list"
type_synonym pattern = "string \<Rightarrow> caps option"

text \<open>
  \<open>DispatcherApp\<close>. The pool is a Python dict: an association list in insertion order
  with unique keys (the order is the one \<open>_root_content\<close> lists the links in).
\<close>

record 'w DispatcherApp =
  base_url :: "string option"
  use_relative_links :: bool
  root_path :: string
  shutdown_path :: string
  favicon_path :: string
  favicon_res :: string
  pool :: "(string \<times> 'w) list"
  config :: "string \<rightharpoonup> WSGIServer"
  app_pattern :: pattern

text \<open>
  The text handed to \<open>re.compile\<close>: \<open>r"/?(.+?)(/|$)"\<close> without a base URL, and
  \<open>rf"/?(?:{self.base_url}/)?(.+?)(/|$)"\<close> with one. The base URL is pasted into the
  text as it is, so a metacharacter in it keeps its meaning in the pattern.
\<close>

definition app_pattern_text :: "string option \<Rightarrow> string" where
  "app_pattern_text base =
     (case base of
        None \<Rightarrow> ''/?(.+?)(/|$)''
      | Some b \<Rightarrow> ''/?(?:'' @ b @ ''/)?(.+?)(/|$)'')"

text \<open>
  \<open>DispatcherApp.__init__\<close>; \<open>here\<close> is the directory of the module file, under which
  the icon lies in \<open>assets/favicon.ico\<close>. \<open>dispatcher_with\<close> is the object the
  constructor leaves once the pattern \<open>pat\<close> is compiled; when \<open>re.compile\<close> raises,
  the constructor raises and there is no dispatcher.
\<close>

definition dispatcher_with :: "pattern \<Rightarrow> string \<Rightarrow> string option \<Rightarrow> bool \<Rightarrow> 'w DispatcherApp" where
  "dispatcher_with pat here base rel =
     \<lparr> base_url = base, use_relative_links = rel,
       root_path = ''/'', shutdown_path = ''/shutdown'', favicon_path = ''/favicon.ico'',
       favicon_res = here @ ''/assets/favicon.ico'',
       pool = [], config = Map.empty,
       app_pattern = pat \<rparr>"

definition dispatcher_init ::
  "(string \<Rightarrow> exn + pattern) \<Rightarrow> string \<Rightarrow> string option \<Rightarrow> bool \<Rightarrow> exn + 'w DispatcherApp" where
  "dispatcher_init re_compile here base rel =
     (case re_compile (app_pattern_text base) of
        Inl e \<Rightarrow> Inl e
      | Inr pat \<Rightarrow> Inr (dispatcher_with pat here base rel))"

definition obj_id :: "'c obj \<Rightarrow> string" where
  "obj_id ob = str_nat (py_id ob)"

section \<open>Registration\<close>

text \<open>
  What a method hands back to its caller: \<open>PyNone\<close> for Python's \<open>None\<close>, which is
  what a method without a \<open>return\<close> statement returns, \<open>PyStr\<close> for a string.
\<close>

datatype pyval = PyNone | PyStr string

text \<open>
  A call of the session factory \<open>_udash.generate_app\<close>: the context, the options dict
  and the path prefix (passed as both \<open>requests_pathname_prefix\<close> and
  \<open>routes_pathname_prefix\<close>).
\<close>

type_synonym ('c, 's) factory_call = "'c obj \<times> (string \<times> 's) list \<times> string"

definition ctx_path :: "string option \<Rightarrow> string \<Rightarrow> string" where
  "ctx_path base ctx_id =
     (case base of
        None \<Rightarrow> ''/'' @ ctx_id @ ''/''
      | Some b \<Rightarrow> ''/'' @ b @ ''/'' @ ctx_id @ ''/'')"

text \<open>
  \<open>DispatcherApp.register(ctx, share_tables=None)\<close>. The session factory is a
  parameter: it returns the Dash application or raises. The result of the model is the
  list of the calls made to the factory, and either the exception of the factory or
  the value the method returns together with the dispatcher afterwards. The method has
  no \<open>return\<close> statement.
\<close>

definition register ::
  "('c obj \<Rightarrow> (string \<times> 's) list \<Rightarrow> string \<Rightarrow> exn + 'w Dash) \<Rightarrow>
   'w DispatcherApp \<Rightarrow> 'c obj \<Rightarrow> 's \<Rightarrow>
   ('c, 's) factory_call list \<times> (exn + pyval \<times> 'w DispatcherApp)" where
  "register generate_app d ctx share_tables =
     (let ctx_id = obj_id ctx in
      if map_of (pool d) ctx_id = None then
        (let path = ctx_path (base_url d) ctx_id;
             opts = [(''share_tables'', share_tables)];
             calls = [(ctx, opts, path)]
         in case generate_app ctx opts path of
              Inl e \<Rightarrow> (calls, Inl e)
            | Inr app \<Rightarrow>
                (let app = app\<lparr>css_serve_locally := True, scripts_serve_locally := True\<rparr>
                 in (calls, Inr (PyNone, d\<lparr>pool := pool d @ [(ctx_id, server app)]\<rparr>))))
      else ([], Inr (PyNone, d)))"

text \<open>
  \<open>register\<close> called twice with the same context, the second call on the dispatcher the
  first one left (on the unchanged dispatcher when the first call raised).
\<close>

definition register_twice ::
  "('c obj \<Rightarrow> (string \<times> 's) list \<Rightarrow> string \<Rightarrow> exn + 'w Dash) \<Rightarrow>
   'w DispatcherApp \<Rightarrow> 'c obj \<Rightarrow> 's \<Rightarrow> 's \<Rightarrow>
   (('c, 's) factory_call list \<times> (exn + pyval \<times> 'w DispatcherApp)) \<times>
   (('c, 's) factory_call list \<times> (exn + pyval \<times> 'w DispatcherApp))" where
  "register_twice generate_app d ctx st1 st2 =
     (let r1 = register generate_app d ctx st1;
          d1 = (case snd r1 of Inl _ \<Rightarrow> d | Inr (v, d') \<Rightarrow> d')
      in (r1, register generate_app d1 ctx st2))"

section \<open>The pattern of a base URL without metacharacters\<close>

text \<open>
  What the library does with the two pattern texts when the base URL is free of
  metacharacters, so that it stands for itself in the pattern: the pattern is built from
  literal text, \<open>.+?\<close>, \<open>$\<close>, sequence, alternation, the greedy \<open>?\<close> and numbered
  capturing groups. \<open>matches r s caps\<close> lists every way \<open>r\<close> can match at the front
  of \<open>s\<close>, as the pair of the text left over and the groups captured, in the order in
  which the backtracking matcher tries them: \<open>?\<close> takes its operand first and skips it
  second, \<open>.+?\<close> takes one character that is not a newline and then as few more as
  needed, \<open>$\<close> holds at the end and before a final newline, an alternation tries its
  left branch first.
\<close>

datatype regex =
    Lit string
  | DotPlusLazy
  | Eos
  | Seq regex regex
  | Alt regex regex
  | Opt regex
  | Group nat regex

fun lazy_runs :: "string \<Rightarrow> string list" where
  "lazy_runs [] = []"
| "lazy_runs (c # cs) = (if c = CHR 0x0A then [] else cs # lazy_runs cs)"

fun matches :: "regex \<Rightarrow> string \<Rightarrow> caps \<Rightarrow> (string \<times> caps) list" where
  "matches (Lit l) s c = (if startswith s l then [(drop (length l) s, c)] else [])"
| "matches DotPlusLazy s c = map (\<lambda>r. (r, c)) (lazy_runs s)"
| "matches Eos s c = (if s = [] \<or> s = [CHR 0x0A] then [(s, c)] else [])"
| "matches (Seq r1 r2) s c = concat (map (\<lambda>(s', c'). matches r2 s' c') (matches r1 s c))"
| "matches (Alt r1 r2) s c = matches r1 s c @ matches r2 s c"
| "matches (Opt r) s c = matches r s c @ [(s, c)]"
| "matches (Group n r) s c =
     map (\<lambda>(s', c'). (s', (n, take (length s - length s') s) # c')) (matches r s c)"

text \<open>
  The search with such a pattern: the first match at the leftmost position that has
  one; the result is the groups of that match, \<open>None\<close> when no position matches.
\<close>

fun search :: "regex \<Rightarrow> string \<Rightarrow> caps option" where
  "search r [] = (case matches r [] [] of [] \<Rightarrow> None | (_, c) # _ \<Rightarrow> Some c)"
| "search r (x # xs) =
     (case matches r (x # xs) [] of [] \<Rightarrow> search r xs | (_, c) # _ \<Rightarrow> Some c)"

definition segment_pattern :: regex where
  "segment_pattern = Seq (Group 1 DotPlusLazy) (Group 2 (Alt (Lit ''/'') Eos))"

definition plain_app_pattern :: "string option \<Rightarrow> regex" where
  "plain_app_pattern base =
     (case base of
        None \<Rightarrow> Seq (Opt (Lit ''/'')) segment_pattern
      | Some b \<Rightarrow> Seq (Opt (Lit ''/'')) (Seq (Opt (Lit (b @ ''/''))) segment_pattern))"

text \<open>
  The characters with a meaning of their own in a pattern, and the base URLs that have
  none of them.
\<close>

definition metachars :: "char list" where
  "metachars = CHR 0x5C # ''.^$*+?{}[]|()''"

definition plain_base :: "string option \<Rightarrow> bool" where
  "plain_base base =
     (case base of None \<Rightarrow> True | Some b \<Rightarrow> list_all (\<lambda>c. c \<notin> set metachars) b)"

text \<open>
  \<open>re.compile\<close> as far as the examples below need it: on the pattern text of a base
  URL without metacharacters it returns the pattern above. It stands for the library on
  that one text only, and refuses every other.
\<close>

definition re_compile_plain :: "string option \<Rightarrow> string \<Rightarrow> exn + pattern" where
  "re_compile_plain base text =
     (if plain_base base \<and> text = app_pattern_text base
      then Inr (search (plain_app_pattern base))
      else Inl (Error ''re.error'' text))"

text \<open>\<open>match.group(n)\<close>: the text group \<open>n\<close> captured, \<open>None\<close> if it took no part.\<close>

definition group :: "caps \<Rightarrow> nat \<Rightarrow> string option" where
  "group c n = map_of c n"

section \<open>The status page\<close>

text \<open>
  \<open>str.encode("utf-8")\<close> on a string of 8-bit characters: a character below 128 is
  one byte, any other becomes two.
\<close>

definition utf8_char :: "char \<Rightarrow> bytes" where
  "utf8_char c =
     (let n = (of_char c :: nat)
      in if n < 128 then [c] else [char_of (192 + n div 64), char_of (128 + n mod 64)])"

definition encode_utf8 :: "string \<Rightarrow> bytes" where
  "encode_utf8 s = concat (map utf8_char s)"

text \<open>\<open>sep.join(xs)\<close>.\<close>

fun join :: "string \<Rightarrow> string list \<Rightarrow> string" where
  "join sep [] = []"
| "join sep [x] = x"
| "join sep (x # y # ys) = x @ sep @ join sep (y # ys)"

text \<open>
  The template of \<open>_root_content\<close>: the text before its one placeholder \<open>$list\<close> and
  the text after it. \<open>Template(body).substitute(list=items)\<close> puts the items between
  the two.
\<close>

definition page_head :: string where
  \<open>page_head =
     ''<!DOCTYPE html>\<newline>'' @
     ''<html lang="en">\<newline>'' @
     ''<head>\<newline>'' @
     ''    <meta charset="UTF-8">\<newline>'' @
     ''    <title>Backend Server</title>\<newline>'' @
     ''</head>\<newline>'' @
     ''<style>\<newline>'' @
     ''body {\<newline>'' @
     ''    background-color: white;\<newline>'' @
     ''    margin: 0;\<newline>'' @
     ''    padding: 0;\<newline>'' @
     ''    min-height: 100vh;\<newline>'' @
     ''}\<newline>'' @
     ''.banner {\<newline>'' @
     ''    height: 65px;\<newline>'' @
     ''    margin: 0;\<newline>'' @
     ''    padding: 0;\<newline>'' @
     ''    background-color: rgb(20, 100, 130);\<newline>'' @
     ''    box-shadow: rgba(0, 0, 0, 0.1) 1px 2px 3px 0px;\<newline>'' @
     ''}\<newline>'' @
     ''.banner h2{\<newline>'' @
     ''    color: white;\<newline>'' @
     ''    margin-top: 0px;\<newline>'' @
     ''    padding: 15px 0;\<newline>'' @
     ''    text-align: center;\<newline>'' @
     ''    font-family: Georgia, Times New Roman, Times, serif;\<newline>'' @
     ''}\<newline>'' @
     ''.app {\<newline>'' @
     ''    background-color: rgb(245, 245, 250);\<newline>'' @
     ''    min-height: 100vh;\<newline>'' @
     ''    overflow: hidden;\<newline>'' @
     ''}\<newline>'' @
     ''.card-header{\<newline>'' @
     ''    padding-top: 12px;\<newline>'' @
     ''    padding-bottom: 12px;\<newline>'' @
     ''    padding-left: 20px;\<newline>'' @
     ''    padding-right: 20px;\<newline>'' @
     ''    position: relative;\<newline>'' @
     ''    line-height: 1;\<newline>'' @
     ''    border-bottom: 1px solid #eaeff2;\<newline>'' @
     ''    background-color: rgba(20, 100, 130, 0.78);\<newline>'' @
     ''}\<newline>'' @
     ''.card-body{\<newline>'' @
     ''    padding-top: 30px;\<newline>'' @
     ''    padding-bottom: 30px;\<newline>'' @
     ''    position: relative;\<newline>'' @
     ''    padding-left: 20px;\<newline>'' @
     ''    padding-right: 20px;\<newline>'' @
     ''}\<newline>'' @
     ''.card-title{\<newline>'' @
     ''    display: inline-block;\<newline>'' @
     ''    margin: 0;\<newline>'' @
     ''    color: #ffffff;\<newline>'' @
     ''}\<newline>'' @
     ''.card {\<newline>'' @
     ''    border-radius: 3px;\<newline>'' @
     ''    background-color: white;\<newline>'' @
     ''    box-shadow: 0 2px 6px rgba(0, 0, 0, 0.08);\<newline>'' @
     ''    border: 1px solid #d1d6e6;\<newline>'' @
     ''    margin: 30px 20px;\<newline>'' @
     ''}\<newline>'' @
     ''.link-container {\<newline>'' @
     ''    text-align: center;\<newline>'' @
     ''}\<newline>'' @
     ''.link-container ul {\<newline>'' @
     ''    display: inline-block;\<newline>'' @
     ''    margin: 0px;\<newline>'' @
     ''    padding: 0px;\<newline>'' @
     ''}\<newline>'' @
     ''.link-container li {\<newline>'' @
     ''    display: block;\<newline>'' @
     ''    padding: 15px;\<newline>'' @
     ''}\<newline>'' @
     ''.center {\<newline>'' @
     ''    position: absolute;\<newline>'' @
     ''    left: 50%;\<newline>'' @
     ''    top: 50%;\<newline>'' @
     ''    -webkit-transform: translate(-50%, -50%);\<newline>'' @
     ''    transform: translate(-50%, -50%);\<newline>'' @
     ''}\<newline>'' @
     ''</style>\<newline>'' @
     ''<body>\<newline>'' @
     ''<div class="app">\<newline>'' @
     ''    <div class="banner"><h2>Backend Server</h2></div>\<newline>'' @
     ''    <div class="card">\<newline>'' @
     ''        <div class="card-header">\<newline>'' @
     ''            <div class="card-title"><div class="center">Active Links</div></div>\<newline>'' @
     ''        </div>\<newline>'' @
     ''        <div class="card-body">\<newline>'' @
     ''            <div class="link-container">\<newline>'' @
     ''                <ul>\<newline>'' @
     ''                    ''\<close>

definition page_tail :: string where
  \<open>page_tail =
     ''\<newline>'' @
     ''                </ul>\<newline>'' @
     ''            </div>\<newline>'' @
     ''        </div>\<newline>'' @
     ''    </div>\<newline>'' @
     ''</div>\<newline>'' @
     ''</body>\<newline>'' @
     ''</html>\<newline>''\<close>

definition link_item :: "string option \<Rightarrow> string \<Rightarrow> string" where
  \<open>link_item base key =
     ''<li><a href="'' @
     (case base of None \<Rightarrow> ''/'' @ key @ ''/'' | Some b \<Rightarrow> ''/'' @ b @ ''/'' @ key @ ''/'') @
     ''">'' @ key @ ''</a></li>''\<close>

definition root_content :: "'w DispatcherApp \<Rightarrow> string" where
  "root_content d =
     (let items =
        (if pool d = [] then ''<li>No active links.</li>''
         else join [CHR 0x0A] (map (\<lambda>key. link_item (base_url d) key) (map fst (pool d))))
      in page_head @ items @ page_tail)"

section \<open>Dispatching a request\<close>

text \<open>
  The WSGI interface. The environ is a dict of strings. \<open>start_response\<close> is the
  server's callable: given what it has accepted so far (the status line and headers of
  the last call that returned, if any), a status line and headers, it returns (\<open>None\<close>)
  or raises. A session application is run by \<open>run\<close>, a parameter: it gets the environ and
  \<open>start_response\<close>, and either returns its body or raises, having had
  \<open>start_response\<close> accept a status line or not.
\<close>

type_synonym header = "string \<times> string"
type_synonym environ = "string \<rightharpoonup> string"
type_synonym accepted = "(string \<times> header list) option"
type_synonym start_response = "accepted \<Rightarrow> string \<Rightarrow> header list \<Rightarrow> exn option"

record 'w outcome =
  returned :: "exn + bytes list"
  started :: accepted
  dispatcher :: "'w DispatcherApp"

definition environ_get :: "environ \<Rightarrow> string \<Rightarrow> string \<Rightarrow> string" where
  "environ_get environ k dflt = (case environ k of None \<Rightarrow> dflt | Some v \<Rightarrow> v)"

text \<open>
  A branch that calls \<open>start_response\<close> and returns a body: when the call raises, the
  exception leaves the branch and nothing more is accepted.
\<close>

definition respond ::
  "start_response \<Rightarrow> 'w DispatcherApp \<Rightarrow> string \<Rightarrow> header list \<Rightarrow> exn + bytes list \<Rightarrow> 'w outcome" where
  "respond sr d status hdrs body =
     (case sr None status hdrs of
        Some e \<Rightarrow> \<lparr>returned = Inl e, started = None, dispatcher = d\<rparr>
      | None \<Rightarrow> \<lparr>returned = body, started = Some (status, hdrs), dispatcher = d\<rparr>)"

text \<open>
  The routing lookup of \<open>__call__\<close>: \<open>re.search(self.app_pattern, path_info)\<close>, then
  \<open>self.pool.get(match.group(1), None)\<close>. The result is \<open>None\<close> where the source
  answers 400: no match, or no pool entry under the first group.
\<close>

definition resolve :: "'w DispatcherApp \<Rightarrow> string \<Rightarrow> (string \<times> 'w) option" where
  "resolve d path_info =
     (case app_pattern d path_info of
        None \<Rightarrow> None
      | Some m \<Rightarrow>
          (case group m 1 of
             None \<Rightarrow> None
           | Some ctx_id \<Rightarrow>
               (case map_of (pool d) ctx_id of
                  None \<Rightarrow> None
                | Some app \<Rightarrow> Some (ctx_id, app))))"

text \<open>
  The rewrite before a request is handed to its session application: with a non-empty
  base URL, a path that does not start with \<open>/base\<close> gets it in front. The subscript
  \<open>environ["PATH_INFO"]\<close> raises \<open>KeyError\<close> on an environ without the key.
\<close>

definition rewrite_path :: "string option \<Rightarrow> environ \<Rightarrow> exn + environ" where
  "rewrite_path base environ =
     (case base of
        None \<Rightarrow> Inr environ
      | Some b \<Rightarrow>
          if truthy (Some b) then
            (case environ ''PATH_INFO'' of
               None \<Rightarrow> Inl (Error ''KeyError'' ''PATH_INFO'')
             | Some p \<Rightarrow>
                 if \<not> startswith p (''/'' @ b)
                 then Inr (environ(''PATH_INFO'' \<mapsto> ''/'' @ b @ p))
                 else Inr environ)
          else Inr environ)"

text \<open>
  The body of the \<open>try\<close> in \<open>DispatcherApp.__call__\<close>. \<open>fs\<close> is the file system,
  read for the icon: a path with no file raises. The request method and every other key
  of the environ are not read. The subscript \<open>self.config["server"]\<close> raises
  \<open>KeyError\<close> when no server has been stored.
\<close>

definition call_try ::
  "('w \<Rightarrow> environ \<Rightarrow> start_response \<Rightarrow> (exn + bytes list) \<times> accepted) \<Rightarrow> (string \<rightharpoonup> bytes) \<Rightarrow>
   'w DispatcherApp \<Rightarrow> environ \<Rightarrow> start_response \<Rightarrow> 'w outcome" where
  "call_try run fs d environ sr =
     (let path_info = environ_get environ ''PATH_INFO'' []
      in
      if path_info = root_path d then
        respond sr d ''200 OK'' [(''content-type'', ''text/html'')]
          (Inr [encode_utf8 (root_content d)])
      else if path_info = shutdown_path d then
        (case config d ''server'' of
           None \<Rightarrow> \<lparr>returned = Inl (Error ''KeyError'' ''server''), started = None, dispatcher = d\<rparr>
         | Some srv \<Rightarrow>
             respond sr (d\<lparr>config := (config d)(''server'' \<mapsto> server_stop srv)\<rparr>)
               ''200 OK'' [(''content-type'', ''text/html'')] (Inr [''Shutdown'']))
      else if path_info = favicon_path d then
        respond sr d ''200 OK'' [(''content-type'', ''image/x-icon'')]
          (case fs (favicon_res d) of
             None \<Rightarrow> Inl (Error ''OSError'' (favicon_res d))
           | Some icon \<Rightarrow> Inr [icon])
      else
        (case resolve d path_info of
           None \<Rightarrow>
             (let msg = ''URL not supported: '' @ path_info
              in respond sr d ''400 BAD REQUEST ERROR'' [(''content-type'', ''text/html'')]
                   (Inr [encode_utf8 msg]))
         | Some (ctx_id, app) \<Rightarrow>
             (case rewrite_path (base_url d) environ of
                Inl e \<Rightarrow> \<lparr>returned = Inl e, started = None, dispatcher = d\<rparr>
              | Inr environ' \<Rightarrow>
                  (let (res, acc) = run app environ' sr
                   in \<lparr>returned = res, started = acc, dispatcher = d\<rparr>))))"

text \<open>
  \<open>DispatcherApp.__call__\<close>: the \<open>try\<close> with its handler. \<open>except Exception\<close> takes an
  \<open>Error\<close> and lets an \<open>Exit\<close> through; inside the handler, \<open>start_response\<close> is called
  under \<open>contextlib.suppress(Exception)\<close>, so an \<open>Error\<close> it raises is dropped and the
  fixed body is returned all the same.
\<close>

definition internal_error_body :: bytes where
  "internal_error_body = ''Internal Server Error caught by Dispatcher. See logs if available.''"

definition call ::
  "('w \<Rightarrow> environ \<Rightarrow> start_response \<Rightarrow> (exn + bytes list) \<times> accepted) \<Rightarrow> (string \<rightharpoonup> bytes) \<Rightarrow>
   'w DispatcherApp \<Rightarrow> environ \<Rightarrow> start_response \<Rightarrow> 'w outcome" where
  "call run fs d environ sr =
     (let out = call_try run fs d environ sr
      in case returned out of
           Inr body \<Rightarrow> out
         | Inl (Exit x) \<Rightarrow> out
         | Inl (Error cls msg) \<Rightarrow>
             (case sr (started out) ''500 INTERNAL SERVER ERROR'' [(''Content-Type'', ''text/plain'')] of
                None \<Rightarrow>
                  out\<lparr>returned := Inr [internal_error_body],
                      started := Some (''500 INTERNAL SERVER ERROR'', [(''Content-Type'', ''text/plain'')])\<rparr>
              | Some (Error cls' msg') \<Rightarrow> out\<lparr>returned := Inr [internal_error_body]\<rparr>
              | Some (Exit x) \<Rightarrow> out\<lparr>returned := Inl (Exit x)\<rparr>))"

section \<open>The application runner\<close>

text \<open>
  The background thread as the runner sees it: \<open>exits_in\<close> is the time in seconds
  after which its \<open>_run\<close> returns, \<open>None\<close> while nothing makes it return.
  \<open>join(timeout)\<close> waits until the thread has ended or the timeout has passed,
  whichever is first; \<open>is_alive()\<close> tells whether it has ended.
\<close>

record Thread =
  exits_in :: "real option"

definition is_alive :: "Thread \<Rightarrow> bool" where
  "is_alive t = (case exits_in t of None \<Rightarrow> True | Some x \<Rightarrow> 0 < x)"

definition thread_join :: "Thread \<Rightarrow> real \<Rightarrow> Thread" where
  "thread_join t timeout =
     (case exits_in t of
        None \<Rightarrow> t
      | Some x \<Rightarrow> t\<lparr>exits_in := Some (max 0 (x - timeout))\<rparr>)"

record 'w AppRunner =
  app :: "'w DispatcherApp"
  base_url :: "string option"
  use_relative_links :: bool
  thread :: "Thread option"
  ip :: string
  port :: int

text \<open>
  \<open>random.randint(a, b)\<close>: some integer from \<open>a\<close> to \<open>b\<close>, both included, picked
  by the generator's next raw value \<open>x\<close>.
\<close>

definition randint :: "int \<Rightarrow> int \<Rightarrow> nat \<Rightarrow> int" where
  "randint a b x = a + int x mod (b - a + 1)"

text \<open>
  \<open>_local_port_available(port, rais)\<close>. \<open>bind_ok port\<close> tells whether binding a TCP
  socket to \<open>("127.0.0.1", port)\<close>, listening on it and closing it goes through
  without \<open>OSError\<close>.
\<close>

definition local_port_available :: "(int \<Rightarrow> bool) \<Rightarrow> int \<Rightarrow> bool \<Rightarrow> exn + bool" where
  "local_port_available bind_ok p rais =
     (if bind_ok p then Inr True
      else if rais then
        Inl (Error ''RuntimeError'' (''The server is already running on port '' @ str_int p))
      else Inr False)"

text \<open>
  The \<open>for _ in range(max_attempts)\<close> loop of \<open>AppRunner.__init__\<close>, over the rounds
  still to run. \<open>bind_ok i\<close> is the state of the host's ports in round \<open>i\<close> and
  \<open>rnd i\<close> the raw random value drawn in it. The result lists the ports probed, in
  order, and gives the port found: \<open>Inr None\<close> is the loop running out, where the
  \<open>else\<close> of the \<open>for\<close> raises.
\<close>

fun find_port ::
  "(nat \<Rightarrow> int \<Rightarrow> bool) \<Rightarrow> (nat \<Rightarrow> nat) \<Rightarrow> nat list \<Rightarrow> int \<Rightarrow> int list \<times> (exn + int option)" where
  "find_port bind_ok rnd [] p = ([], Inr None)"
| "find_port bind_ok rnd (i # rounds) p =
     (case local_port_available (bind_ok i) p False of
        Inl e \<Rightarrow> ([p], Inl e)
      | Inr True \<Rightarrow> ([p], Inr (Some p))
      | Inr False \<Rightarrow>
          (let (probed, res) = find_port bind_ok rnd rounds (randint 7002 7999 (rnd i))
           in (p # probed, res)))"

definition no_port_msg :: string where
  \<open>no_port_msg =
     ''Could not find open port.\<newline>'' @
     ''                Consider calling `interpret.set_show_addr(("127.0.0.1", 7001))` first.\<newline>'' @
     ''                ''\<close>

text \<open>
  \<open>AppRunner.__init__(addr, base_url, use_relative_links)\<close>: the ports probed, and the
  runner or the exception raised. The dispatcher is built first; when its constructor
  raises, so does this one, before any port is probed.
\<close>

definition runner_init ::
  "(string \<Rightarrow> exn + pattern) \<Rightarrow> string \<Rightarrow> (nat \<Rightarrow> int \<Rightarrow> bool) \<Rightarrow> (nat \<Rightarrow> nat) \<Rightarrow>
   (string \<times> int) option \<Rightarrow> string option \<Rightarrow> bool \<Rightarrow> int list \<times> (exn + 'w AppRunner)" where
  "runner_init re_compile here bind_ok rnd addr base rel =
     (case dispatcher_init re_compile here base rel of
        Inl e \<Rightarrow> ([], Inl e)
      | Inr d \<Rightarrow>
          (let self = \<lparr> app = d, base_url = base,
                        use_relative_links = rel, thread = None, ip = [], port = - 1 \<rparr>
           in case addr of
                None \<Rightarrow>
                  (let max_attempts = 10;
                       (probed, res) = find_port bind_ok rnd [0..<max_attempts] 7001
                   in case res of
                        Inl e \<Rightarrow> (probed, Inl e)
                      | Inr None \<Rightarrow> (probed, Inl (Error ''RuntimeError'' no_port_msg))
                      | Inr (Some p) \<Rightarrow> (probed, Inr (self\<lparr>ip := ''127.0.0.1'', port := p\<rparr>)))
              | Some a \<Rightarrow> ([], Inr (self\<lparr>ip := fst a, port := snd a\<rparr>))))"

text \<open>
  \<open>AppRunner.stop()\<close>. The network and the server behind it are the parameters:
  \<open>post url\<close> is what \<open>requests.post(url)\<close> does, return (\<open>None\<close>) or raise, an
  \<open>Error\<close> of class \<open>RequestException\<close> standing for the exceptions the handler
  catches; \<open>then_exits\<close> is the time the thread takes to end once the request has
  returned (\<open>None\<close>: it does not end). Any other exception of the request leaves
  \<open>stop\<close>.
\<close>

definition is_request_exception :: "exn \<Rightarrow> bool" where
  "is_request_exception e = (case e of Error cls msg \<Rightarrow> cls = ''RequestException'' | Exit x \<Rightarrow> False)"

definition runner_url :: "'w AppRunner \<Rightarrow> string \<Rightarrow> string" where
  "runner_url r path = ''http://'' @ ip r @ '':'' @ str_int (port r) @ ''/'' @ path"

definition stop ::
  "(string \<Rightarrow> exn option) \<Rightarrow> real option \<Rightarrow> 'w AppRunner \<Rightarrow> exn + (bool \<times> 'w AppRunner)" where
  "stop post then_exits r =
     (case thread r of
        None \<Rightarrow> Inr (True, r)
      | Some t \<Rightarrow>
          (case post (runner_url r (build_path ''shutdown'' None)) of
             Some e \<Rightarrow> if is_request_exception e then Inr (False, r) else Inl e
           | None \<Rightarrow>
               (let t' = thread_join (t\<lparr>exits_in := then_exits\<rparr>) 5.0
                in if is_alive t' then Inr (False, r\<lparr>thread := Some t'\<rparr>)
                   else Inr (True, r\<lparr>thread := None\<rparr>))))"

text \<open>\<open>AppRunner.ping()\<close>, with \<open>get url\<close> for \<open>requests.get(url)\<close>.\<close>

definition ping :: "(string \<Rightarrow> exn option) \<Rightarrow> 'w AppRunner \<Rightarrow> exn + bool" where
  "ping get r =
     (case get (runner_url r (build_path [] None)) of
        None \<Rightarrow> Inr True
      | Some e \<Rightarrow> if is_request_exception e then Inr False else Inl e)"

text \<open>\<open>AppRunner._obj_id\<close> and \<open>AppRunner.display_link\<close>.\<close>

definition runner_obj_id :: "'c obj \<Rightarrow> string" where
  "runner_obj_id ob = str_nat (py_id ob)"

definition display_link :: "'w AppRunner \<Rightarrow> 'c obj \<Rightarrow> string" where
  "display_link r ctx =
     (let obj_path = runner_obj_id ctx @ ''/'';
          path = (case base_url r of None \<Rightarrow> obj_path | Some b \<Rightarrow> b @ ''/'' @ obj_path);
          start_url = (if use_relative_links r then ''/''
                       else ''http://'' @ ip r @ '':'' @ str_int (port r) @ ''/'')
      in start_url @ path)"

text \<open>\<open>AppRunner.register\<close> hands the context to the dispatcher.\<close>

definition runner_register ::
  "('c obj \<Rightarrow> (string \<times> 's) list \<Rightarrow> string \<Rightarrow> exn + 'w Dash) \<Rightarrow>
   'w AppRunner \<Rightarrow> 'c obj \<Rightarrow> 's \<Rightarrow>
   ('c, 's) factory_call list \<times> (exn + pyval \<times> 'w AppRunner)" where
  "runner_register generate_app r ctx share_tables =
     (case register generate_app (app r) ctx share_tables of
        (calls, Inl e) \<Rightarrow> (calls, Inl e)
      | (calls, Inr (v, d)) \<Rightarrow> (calls, Inr (PyNone, r\<lparr>app := d\<rparr>)))"

text \<open>
  \<open>AppRunner.status()\<close>: the dict it returns, as a record of its five keys. The thread's
  liveness is read from the thread the runner holds, the reachability from a fresh ping.
\<close>

record status_dict =
  addr :: "string \<times> int"
  status_base_url :: "string option"
  status_use_relative_links :: bool
  thread_alive :: bool
  http_reachable :: bool

definition status :: "(string \<Rightarrow> exn option) \<Rightarrow> 'w AppRunner \<Rightarrow> exn + status_dict" where
  "status get r =
     (case ping get r of
        Inl e \<Rightarrow> Inl e
      | Inr reachable \<Rightarrow>
          Inr \<lparr> addr = (ip r, port r),
                status_base_url = base_url r,
                status_use_relative_links = use_relative_links r,
                thread_alive = (case thread r of None \<Rightarrow> False | Some t \<Rightarrow> is_alive t),
                http_reachable = reachable \<rparr>)"

section \<open>Registration is idempotent\<close>

lemma digit_chars:
  "digit_char 0 = CHR ''0''" "digit_char (Suc 0) = CHR ''1''" "digit_char 2 = CHR ''2''"
  "digit_char 3 = CHR ''3''" "digit_char 4 = CHR ''4''" "digit_char 5 = CHR ''5''"
  "digit_char 6 = CHR ''6''" "digit_char 7 = CHR ''7''" "digit_char 8 = CHR ''8''"
  "digit_char 9 = CHR ''9''"
  by code_simp+

lemma str_nat_42: "str_nat 42 = ''42''"
  by (simp add: str_nat.simps digit_chars)

lemma str_nat_7001: "str_nat 7001 = ''7001''"
  by (simp add: str_nat.simps digit_chars)

text \<open>
  The identifier is a faithful name of the identity: contexts with different identities
  get different identifiers.
\<close>

lemma digit_char_inject: "a < 10 \<Longrightarrow> b < 10 \<Longrightarrow> digit_char a = digit_char b \<Longrightarrow> a = b"
proof -
  assume a: "a < 10" and b: "b < 10" and eq: "digit_char a = digit_char b"
  from eq have "of_char (char_of (48 + a)) = (of_char (char_of (48 + b)) :: nat)"
    by (simp add: digit_char_def)
  then have "(48 + a) mod 256 = (48 + b) mod 256"
    by (simp add: of_char_of)
  with a b show "a = b" by simp
qed

lemma str_nat_nonempty: "str_nat n \<noteq> []"
  by (subst str_nat.simps) simp

lemma str_nat_inject: "str_nat m = str_nat n \<Longrightarrow> m = n"
proof (induction m arbitrary: n rule: str_nat.induct)
  case (1 m)
  show ?case
  proof (cases "m < 10")
    case small: True
    show ?thesis
    proof (cases "n < 10")
      case True
      with small "1.prems" show ?thesis
        by (simp add: str_nat.simps [of m] str_nat.simps [of n] digit_char_inject)
    next
      case False
      with small "1.prems" have "[digit_char m] = str_nat (n div 10) @ [digit_char (n mod 10)]"
        by (simp add: str_nat.simps [of m] str_nat.simps [of n])
      then have "str_nat (n div 10) = []" by simp
      with str_nat_nonempty show ?thesis by blast
    qed
  next
    case big: False
    show ?thesis
    proof (cases "n < 10")
      case True
      with big "1.prems" have "str_nat (m div 10) @ [digit_char (m mod 10)] = [digit_char n]"
        by (simp add: str_nat.simps [of m] str_nat.simps [of n])
      then have "str_nat (m div 10) = []" by simp
      with str_nat_nonempty show ?thesis by blast
    next
      case False
      with big "1.prems" have "str_nat (m div 10) @ [digit_char (m mod 10)]
          = str_nat (n div 10) @ [digit_char (n mod 10)]"
        by (simp add: str_nat.simps [of m] str_nat.simps [of n])
      then have front: "str_nat (m div 10) = str_nat (n div 10)"
        and last: "digit_char (m mod 10) = digit_char (n mod 10)" by simp_all
      from "1.IH" [OF big front] have d: "m div 10 = n div 10" .
      from last have r: "m mod 10 = n mod 10"
        by (intro digit_char_inject) simp_all
      from d r show ?thesis by (metis div_mult_mod_eq)
    qed
  qed
qed

lemma obj_id_inject: "obj_id a = obj_id b \<longleftrightarrow> py_id a = py_id b"
  by (auto simp: obj_id_def dest: str_nat_inject)

lemma dispatcher_init_plain:
  "plain_base base \<Longrightarrow>
     dispatcher_init (re_compile_plain base) here base rel =
       Inr (dispatcher_with (search (plain_app_pattern base)) here base rel)"
  by (simp add: dispatcher_init_def re_compile_plain_def)

text \<open>
  C1, as the spec states it, fails in its last part: \<open>register\<close> has no \<open>return\<close>
  statement, so neither call yields an identifier. Both calls return \<open>None\<close>, which is
  not the identifier \<open>42\<close> of the context registered here.
\<close>

theorem register_returns_none_counterexample:
  "register_twice
     (\<lambda>c opts p. Inr \<lparr>server = (7::nat), css_serve_locally = False, scripts_serve_locally = False\<rparr>)
     (dispatcher_with (search (plain_app_pattern None)) ''/srv'' None False) (Obj 42 ()) (None :: bool option) (Some True)
   = (([(Obj 42 (), [(''share_tables'', None)], ''/42/'')],
       Inr (PyNone, (dispatcher_with (search (plain_app_pattern None)) ''/srv'' None False)\<lparr>pool := [(''42'', 7)]\<rparr>)),
      ([], Inr (PyNone, (dispatcher_with (search (plain_app_pattern None)) ''/srv'' None False)\<lparr>pool := [(''42'', 7)]\<rparr>)))
   \<and> PyNone \<noteq> PyStr (str_nat (py_id (Obj 42 ())))"
  by (simp add: register_twice_def register_def Let_def dispatcher_with_def obj_id_def
        str_nat_42 ctx_path_def)

text \<open>
  C1, amended. When no entry exists under the identifier of a context, the decimal
  string of \<open>id(ctx)\<close>, and the session factory returns an application, two calls of
  \<open>register\<close> with that context call the factory exactly once, in the first call,
  which stores the application's server under that identifier; the second call finds
  the entry under the same identifier and leaves the dispatcher as it is. Both calls
  return \<open>None\<close>: the identifier is the key of the registry, not a value the calls
  yield.
\<close>

theorem register_idempotent:
  assumes fresh: "map_of (pool d) (str_nat (py_id ctx)) = None"
      and made: "generate_app ctx [(''share_tables'', st1)]
                   (ctx_path (DispatcherApp.base_url d) (str_nat (py_id ctx))) = Inr a"
  shows "register_twice generate_app d ctx st1 st2 =
           (([(ctx, [(''share_tables'', st1)],
               ctx_path (DispatcherApp.base_url d) (str_nat (py_id ctx)))],
             Inr (PyNone, d\<lparr>pool := pool d @ [(str_nat (py_id ctx), server a)]\<rparr>)),
            ([], Inr (PyNone, d\<lparr>pool := pool d @ [(str_nat (py_id ctx), server a)]\<rparr>)))
         \<and> map_of (pool (d\<lparr>pool := pool d @ [(str_nat (py_id ctx), server a)]\<rparr>))
               (str_nat (py_id ctx)) = Some (server a)
         \<and> length (fst (fst (register_twice generate_app d ctx st1 st2))
                    @ fst (snd (register_twice generate_app d ctx st1 st2))) = 1"
proof -
  let ?key = "str_nat (py_id ctx)"
  let ?d1 = "d\<lparr>pool := pool d @ [(?key, server a)]\<rparr>"
  have key: "obj_id ctx = ?key"
    by (simp add: obj_id_def)
  have known: "map_of (pool ?d1) ?key = Some (server a)"
    using fresh by (simp add: map_add_def)
  have first: "register generate_app d ctx st1 =
      ([(ctx, [(''share_tables'', st1)], ctx_path (DispatcherApp.base_url d) ?key)],
       Inr (PyNone, ?d1))"
    using fresh made by (simp add: register_def key Let_def)
  have second: "register generate_app ?d1 ctx st2 = ([], Inr (PyNone, ?d1))"
    using known by (simp add: register_def key Let_def)
  have twice: "register_twice generate_app d ctx st1 st2 =
      (([(ctx, [(''share_tables'', st1)], ctx_path (DispatcherApp.base_url d) ?key)],
        Inr (PyNone, ?d1)),
       ([], Inr (PyNone, ?d1)))"
    unfolding register_twice_def by (simp add: first second Let_def)
  show ?thesis
    using known by (simp add: twice)
qed

theorem register_idempotent_witness:
  "map_of (pool ((dispatcher_with (search (plain_app_pattern None)) ''/srv'' None False) :: nat DispatcherApp)) (str_nat (py_id (Obj 7001 ()))) = None
   \<and> (\<lambda>c opts p. Inr \<lparr>server = (7::nat), css_serve_locally = False, scripts_serve_locally = False\<rparr>)
        (Obj 7001 ()) [(''share_tables'', None :: bool option)]
        (ctx_path (DispatcherApp.base_url ((dispatcher_with (search (plain_app_pattern None)) ''/srv'' None False) :: nat DispatcherApp)) (str_nat (py_id (Obj 7001 ()))))
       = (Inr \<lparr>server = 7, css_serve_locally = False, scripts_serve_locally = False\<rparr> :: exn + nat Dash)
   \<and> register_twice
        (\<lambda>c opts p. Inr \<lparr>server = (7::nat), css_serve_locally = False, scripts_serve_locally = False\<rparr>)
        (dispatcher_with (search (plain_app_pattern None)) ''/srv'' None False) (Obj 7001 ()) (None :: bool option) (Some True)
      = (([(Obj 7001 (), [(''share_tables'', None)], ''/7001/'')],
          Inr (PyNone, (dispatcher_with (search (plain_app_pattern None)) ''/srv'' None False)\<lparr>pool := [(''7001'', 7)]\<rparr>)),
         ([], Inr (PyNone, (dispatcher_with (search (plain_app_pattern None)) ''/srv'' None False)\<lparr>pool := [(''7001'', 7)]\<rparr>)))"
  using register_idempotent
    [where d = "(dispatcher_with (search (plain_app_pattern None)) ''/srv'' None False) :: nat DispatcherApp" and ctx = "Obj 7001 ()"
       and generate_app = "\<lambda>c opts p. Inr \<lparr>server = (7::nat), css_serve_locally = False, scripts_serve_locally = False\<rparr>"
       and ?st1.0 = "None :: bool option"
       and a = "\<lparr>server = (7::nat), css_serve_locally = False, scripts_serve_locally = False\<rparr>"
       and ?st2.0 = "Some True"]
  by (simp add: dispatcher_with_def str_nat_7001 ctx_path_def)

section \<open>Port allocation\<close>

lemma randint_range: "a \<le> b \<Longrightarrow> a \<le> randint a b x \<and> randint a b x \<le> b"
proof -
  assume ab: "a \<le> b"
  have pos: "0 < b - a + 1" using ab by linarith
  have "0 \<le> int x mod (b - a + 1)" using pos by (rule pos_mod_sign)
  moreover have "int x mod (b - a + 1) < b - a + 1" using pos by (rule pos_mod_bound)
  ultimately show ?thesis unfolding randint_def by linarith
qed

lemma find_port_hd:
  "find_port bind_ok rnd (i # rounds) p = (probed, res) \<Longrightarrow> probed \<noteq> [] \<and> hd probed = p"
  by (auto simp: local_port_available_def split: if_splits prod.splits)

lemma find_port_length:
  "find_port bind_ok rnd rounds p = (probed, res) \<Longrightarrow> length probed \<le> length rounds"
  by (induction rounds arbitrary: p probed res)
     (auto simp: local_port_available_def split: if_splits prod.splits)

lemma find_port_range:
  "find_port bind_ok rnd rounds p = (probed, res) \<Longrightarrow> q \<in> set (tl probed) \<Longrightarrow> 7002 \<le> q \<and> q \<le> 7999"
proof (induction rounds arbitrary: p probed res)
  case Nil
  then show ?case by simp
next
  case (Cons i rounds)
  show ?case
  proof (cases "bind_ok i p")
    case True
    with Cons.prems show ?thesis by (auto simp add: local_port_available_def)
  next
    case False
    obtain probed' res' where rec: "find_port bind_ok rnd rounds (randint 7002 7999 (rnd i)) = (probed', res')"
      by (cases "find_port bind_ok rnd rounds (randint 7002 7999 (rnd i))")
    with False Cons.prems have probed: "probed = p # probed'"
      by (simp add: local_port_available_def)
    with Cons.prems(2) have q: "q \<in> set probed'" by simp
    show ?thesis
    proof (cases rounds)
      case Nil
      with rec q show ?thesis by simp
    next
      case (Cons j rest)
      with rec have "probed' \<noteq> [] \<and> hd probed' = randint 7002 7999 (rnd i)"
        using find_port_hd by blast
      then have "q = randint 7002 7999 (rnd i) \<or> q \<in> set (tl probed')"
        using q by (cases probed') auto
      then show ?thesis
        using Cons.IH [OF rec] randint_range [of 7002 7999 "rnd i"] by auto
    qed
  qed
qed

lemma find_port_failed:
  "find_port bind_ok rnd rounds p = (probed, res) \<Longrightarrow> Suc k < length probed \<Longrightarrow>
     \<not> bind_ok (rounds ! k) (probed ! k)"
proof (induction rounds arbitrary: p probed res k)
  case Nil
  then show ?case by simp
next
  case (Cons i rounds)
  show ?case
  proof (cases "bind_ok i p")
    case True
    with Cons.prems show ?thesis by (auto simp add: local_port_available_def)
  next
    case False
    obtain probed' res' where rec: "find_port bind_ok rnd rounds (randint 7002 7999 (rnd i)) = (probed', res')"
      by (cases "find_port bind_ok rnd rounds (randint 7002 7999 (rnd i))")
    with False Cons.prems have probed: "probed = p # probed'"
      by (simp add: local_port_available_def)
    show ?thesis
    proof (cases k)
      case 0
      with False probed show ?thesis by simp
    next
      case (Suc j)
      with Cons.prems(2) probed have "Suc j < length probed'" by simp
      from Cons.IH [OF rec this] Suc probed show ?thesis by simp
    qed
  qed
qed

lemma find_port_result:
  "find_port bind_ok rnd rounds p = (probed, res) \<Longrightarrow>
     (case res of
        Inl e \<Rightarrow> False
      | Inr None \<Rightarrow> length probed = length rounds \<and> (\<forall>k < length rounds. \<not> bind_ok (rounds ! k) (probed ! k))
      | Inr (Some q) \<Rightarrow> probed \<noteq> [] \<and> q = last probed \<and> bind_ok (rounds ! (length probed - 1)) q)"
proof (induction rounds arbitrary: p probed res)
  case Nil
  then show ?case by auto
next
  case (Cons i rounds)
  show ?case
  proof (cases "bind_ok i p")
    case True
    with Cons.prems show ?thesis by (auto simp add: local_port_available_def)
  next
    case False
    obtain probed' res' where rec: "find_port bind_ok rnd rounds (randint 7002 7999 (rnd i)) = (probed', res')"
      by (cases "find_port bind_ok rnd rounds (randint 7002 7999 (rnd i))")
    with False Cons.prems have probed: "probed = p # probed'" and res: "res = res'"
      by (simp_all add: local_port_available_def)
    from Cons.IH [OF rec] False probed res show ?thesis
      by (cases probed') (auto split: sum.splits option.splits simp: nth_Cons less_Suc_eq_0_disj)
  qed
qed

text \<open>
  C2. Without an address, the constructor probes port 7001 first, then after each
  failed probe a port drawn from 7002 to 7999, at most 10 ports in all; it ends with
  the first port whose probe goes through, on 127.0.0.1, and when all 10 probes fail
  it raises \<open>RuntimeError\<close> to its caller. With an address no port is probed and the
  address is taken as given.
\<close>

theorem port_allocation:
  fixes res :: "exn + 'w AppRunner"
  assumes run: "runner_init re_compile here bind_ok rnd None base rel = (probed, res)"
  shows "(case (dispatcher_init re_compile here base rel :: exn + 'w DispatcherApp) of
            Inl e \<Rightarrow> probed = [] \<and> res = Inl e
          | Inr d \<Rightarrow>
              probed \<noteq> [] \<and> hd probed = 7001 \<and> length probed \<le> 10
              \<and> (\<forall>q \<in> set (tl probed). 7002 \<le> q \<and> q \<le> 7999)
              \<and> (\<forall>k. Suc k < length probed \<longrightarrow> \<not> bind_ok k (probed ! k))
              \<and> (case res of
                    Inr r \<Rightarrow> ip r = ''127.0.0.1'' \<and> port r = last probed
                             \<and> bind_ok (length probed - 1) (last probed)
                  | Inl e \<Rightarrow> e = Error ''RuntimeError'' no_port_msg \<and> length probed = 10
                             \<and> (\<forall>k < 10. \<not> bind_ok k (probed ! k))))
         \<and> (runner_init re_compile here bind_ok rnd (Some (h, p)) base rel
               :: int list \<times> (exn + 'w AppRunner))
             = (case dispatcher_init re_compile here base rel of
                  Inl e \<Rightarrow> ([], Inl e)
                | Inr d \<Rightarrow>
                    ([], Inr \<lparr>app = d, base_url = base, use_relative_links = rel,
                              thread = None, ip = h, port = p\<rparr>))"
proof -
  have given: "(runner_init re_compile here bind_ok rnd (Some (h, p)) base rel
               :: int list \<times> (exn + 'w AppRunner))
             = (case dispatcher_init re_compile here base rel of
                  Inl e \<Rightarrow> ([], Inl e)
                | Inr d \<Rightarrow>
                    ([], Inr \<lparr>app = d, base_url = base, use_relative_links = rel,
                              thread = None, ip = h, port = p\<rparr>))"
    by (simp add: runner_init_def split: sum.split)
  have alloc: "case (dispatcher_init re_compile here base rel :: exn + 'w DispatcherApp) of
            Inl e \<Rightarrow> probed = [] \<and> res = Inl e
          | Inr d \<Rightarrow>
              probed \<noteq> [] \<and> hd probed = 7001 \<and> length probed \<le> 10
              \<and> (\<forall>q \<in> set (tl probed). 7002 \<le> q \<and> q \<le> 7999)
              \<and> (\<forall>k. Suc k < length probed \<longrightarrow> \<not> bind_ok k (probed ! k))
              \<and> (case res of
                    Inr r \<Rightarrow> ip r = ''127.0.0.1'' \<and> port r = last probed
                             \<and> bind_ok (length probed - 1) (last probed)
                  | Inl e \<Rightarrow> e = Error ''RuntimeError'' no_port_msg \<and> length probed = 10
                             \<and> (\<forall>k < 10. \<not> bind_ok k (probed ! k)))"
  proof (cases "dispatcher_init re_compile here base rel :: exn + 'w DispatcherApp")
    case (Inl e)
    with run show ?thesis by (simp add: runner_init_def)
  next
    case built: (Inr d)
    obtain fres where fp: "find_port bind_ok rnd [0..<10] 7001 = (probed, fres)"
      using run built
      by (auto simp: runner_init_def Let_def split: prod.splits sum.splits option.splits)
    have rounds: "[0..<10] = 0 # [1..<10]"
      by (simp add: upt_rec)
    have nth: "\<And>k. k < 10 \<Longrightarrow> [0..<10] ! k = k"
      by simp
    have len: "length probed \<le> 10"
      using find_port_length [OF fp] by simp
    have first: "probed \<noteq> [] \<and> hd probed = 7001"
      using fp find_port_hd [of bind_ok rnd 0 "[1..<10]" 7001 probed fres] by (simp add: rounds)
    have range: "\<forall>q \<in> set (tl probed). 7002 \<le> q \<and> q \<le> 7999"
      using find_port_range [OF fp] by blast
    have failed: "\<forall>k. Suc k < length probed \<longrightarrow> \<not> bind_ok k (probed ! k)"
    proof (intro allI impI)
      fix k assume k: "Suc k < length probed"
      then have "k < 10" using len by simp
      with find_port_failed [OF fp k] show "\<not> bind_ok k (probed ! k)" by (simp add: nth)
    qed
    have outcome: "case res of
                 Inr r \<Rightarrow> ip r = ''127.0.0.1'' \<and> port r = last probed
                          \<and> bind_ok (length probed - 1) (last probed)
               | Inl e \<Rightarrow> e = Error ''RuntimeError'' no_port_msg \<and> length probed = 10
                          \<and> (\<forall>k < 10. \<not> bind_ok k (probed ! k))"
    proof (cases fres)
      case (Inl e)
      with find_port_result [OF fp] show ?thesis by simp
    next
      case (Inr found)
      show ?thesis
      proof (cases found)
        case None
        with Inr find_port_result [OF fp] have "length probed = 10"
          and "\<forall>k < 10. \<not> bind_ok k (probed ! k)" by simp_all
        moreover have "res = Inl (Error ''RuntimeError'' no_port_msg)"
          using run built fp Inr None by (simp add: runner_init_def Let_def)
        ultimately show ?thesis by simp
      next
        case (Some q)
        with Inr find_port_result [OF fp] have ne: "probed \<noteq> []" and q: "q = last probed"
          and ok: "bind_ok ([0..<10] ! (length probed - 1)) q" by auto
        have "length probed - 1 < 10" using len ne by (cases probed) simp_all
        with ok have ok': "bind_ok (length probed - 1) q" by (simp only: nth)
        have "res = Inr (\<lparr>app = d, base_url = base,
                           use_relative_links = rel, thread = None, ip = [], port = - 1\<rparr>
                         \<lparr>ip := ''127.0.0.1'', port := q\<rparr>)"
          using run built fp Inr Some by (simp add: runner_init_def Let_def)
        with q ok' show ?thesis by simp
      qed
    qed
    from first len range failed outcome show ?thesis
      unfolding built by simp
  qed
  from alloc given show ?thesis by blast
qed

lemma runner_init_example:
  "(runner_init (re_compile_plain None) ''/srv'' (\<lambda>i q. i = 2) (\<lambda>i. i * 1000 + 5) None None False
      :: int list \<times> (exn + nat AppRunner))
   = ([7001, 7007, 7009],
      Inr \<lparr>app = (dispatcher_with (search (plain_app_pattern None)) ''/srv'' None False), base_url = None,
           use_relative_links = False, thread = None, ip = ''127.0.0.1'', port = 7009\<rparr>)"
  by (simp add: runner_init_def dispatcher_init_plain plain_base_def upt_rec
        local_port_available_def randint_def)

theorem port_allocation_witness:
  "(runner_init (re_compile_plain None) ''/srv'' (\<lambda>i q. i = 2) (\<lambda>i. i * 1000 + 5) None None False
      :: int list \<times> (exn + nat AppRunner))
   = ([7001, 7007, 7009],
      Inr \<lparr>app = (dispatcher_with (search (plain_app_pattern None)) ''/srv'' None False), base_url = None,
           use_relative_links = False, thread = None, ip = ''127.0.0.1'', port = 7009\<rparr>)
   \<and> (dispatcher_init (re_compile_plain None) ''/srv'' None False :: exn + nat DispatcherApp)
       = Inr (dispatcher_with (search (plain_app_pattern None)) ''/srv'' None False)
   \<and> hd [7001, 7007, 7009 :: int] = 7001 \<and> length [7001, 7007, 7009 :: int] \<le> 10
   \<and> tl [7001, 7007, 7009 :: int] = [7007, 7009] \<and> (7002 :: int) \<le> 7007 \<and> (7009 :: int) \<le> 7999
   \<and> \<not> (\<lambda>i q. i = 2) (0 :: nat) (7001 :: int) \<and> \<not> (\<lambda>i q. i = 2) (1 :: nat) (7007 :: int)
   \<and> (\<lambda>i q. i = 2) (2 :: nat) (7009 :: int)
   \<and> (runner_init (re_compile_plain None) ''/srv'' (\<lambda>i q. i = 2) (\<lambda>i. i * 1000 + 5)
         (Some (''0.0.0.0'', 80)) None False
        :: int list \<times> (exn + nat AppRunner))
       = ([], Inr \<lparr>app = (dispatcher_with (search (plain_app_pattern None)) ''/srv'' None False), base_url = None,
                   use_relative_links = False, thread = None, ip = ''0.0.0.0'', port = 80\<rparr>)"
  using port_allocation [OF runner_init_example, of "''0.0.0.0''" 80] runner_init_example
  by (simp add: dispatcher_init_plain plain_base_def)

text \<open>When no probe goes through, the tenth failure ends the constructor with the error.\<close>

lemma port_exhausted_example:
  "(runner_init (re_compile_plain None) ''/srv'' (\<lambda>i q. False) (\<lambda>i. i) None None False
      :: int list \<times> (exn + nat AppRunner))
   = ([7001, 7002, 7003, 7004, 7005, 7006, 7007, 7008, 7009, 7010],
      Inl (Error ''RuntimeError'' no_port_msg))"
  by (simp add: runner_init_def dispatcher_init_plain plain_base_def upt_rec
        local_port_available_def randint_def)

text \<open>
  A pattern text the library refuses ends the constructor before any port is probed.
\<close>

lemma runner_init_bad_pattern_example:
  "(runner_init (\<lambda>text. Inl (Error ''re.error'' text)) ''/srv'' (\<lambda>i q. True) (\<lambda>i. i)
      None (Some ''('') False :: int list \<times> (exn + nat AppRunner))
   = ([], Inl (Error ''re.error'' ''/?(?:(/)?(.+?)(/|$)''))"
  by (simp add: runner_init_def dispatcher_init_def app_pattern_text_def)

section \<open>The link to a session\<close>

text \<open>
  C10. \<open>display_link\<close> is the start (\<open>/\<close> with relative links, else
  \<open>http://ip:port/\<close>), the base URL and a slash when one is set, the identifier
  \<open>str(id(ctx))\<close> and a slash. It reads neither the dispatcher nor its pool, so it is the
  same whatever is registered, and depends on the context through its identity only.
\<close>

theorem display_link_shape:
  "display_link r ctx =
     (if AppRunner.use_relative_links r then ''/''
      else ''http://'' @ ip r @ '':'' @ str_int (port r) @ ''/'')
     @ (case AppRunner.base_url r of None \<Rightarrow> [] | Some b \<Rightarrow> b @ ''/'')
     @ str_nat (py_id ctx) @ ''/''
   \<and> display_link (r\<lparr>app := a\<rparr>) ctx = display_link r ctx
   \<and> display_link r (Obj (py_id ctx) other) = display_link r ctx"
  by (simp add: display_link_def runner_obj_id_def Let_def split: option.split)


text \<open>A context that was never registered, on a runner whose pool is empty.\<close>

lemma display_link_example:
  "display_link
     (\<lparr>app = (dispatcher_with (search (plain_app_pattern (Some ''b''))) ''/srv'' (Some ''b'') False), base_url = Some ''b'',
       use_relative_links = False, thread = None, ip = ''127.0.0.1'', port = 7001\<rparr>
        :: nat AppRunner)
     (Obj 42 ()) = ''http://127.0.0.1:7001/b/42/''"
  by (simp add: display_link_def runner_obj_id_def str_nat_42 str_int_def str_nat.simps
        digit_chars)

section \<open>Dispatch: shared facts\<close>

lemma encode_utf8_append: "encode_utf8 (a @ b) = encode_utf8 a @ encode_utf8 b"
  by (simp add: encode_utf8_def)

lemma encode_utf8_ascii: "\<forall>c \<in> set s. (of_char c :: nat) < 128 \<Longrightarrow> encode_utf8 s = s"
  by (induction s) (simp_all add: encode_utf8_def utf8_char_def)

lemma encode_utf8_Cons: "encode_utf8 (c # s) = utf8_char c @ encode_utf8 s"
  by (simp add: encode_utf8_def)

lemma encode_utf8_msg:
  "encode_utf8 (''URL not supported: '' @ p) = ''URL not supported: '' @ encode_utf8 p"
  by (simp add: encode_utf8_Cons utf8_char_def)

lemma call_try_unsupported:
  assumes "environ_get environ ''PATH_INFO'' [] = path_info"
      and "path_info \<noteq> root_path d" and "path_info \<noteq> shutdown_path d"
      and "path_info \<noteq> favicon_path d"
      and "resolve d path_info = None"
      and "sr None ''400 BAD REQUEST ERROR'' [(''content-type'', ''text/html'')] = None"
  shows "call_try run fs d environ sr =
           \<lparr>returned = Inr [''URL not supported: '' @ encode_utf8 path_info],
            started = Some (''400 BAD REQUEST ERROR'', [(''content-type'', ''text/html'')]),
            dispatcher = d\<rparr>"
  using assms
  by (simp add: call_try_def respond_def Let_def encode_utf8_msg del: append.simps)

lemma call_returns: "returned (call_try run fs d environ sr) = Inr body \<Longrightarrow>
   call run fs d environ sr = call_try run fs d environ sr"
  by (simp add: call_def Let_def)

lemma call_shutdown:
  assumes "environ ''PATH_INFO'' = Some ''/shutdown''"
      and "c ''server'' = Some srv"
      and "sr None ''200 OK'' [(''content-type'', ''text/html'')] = None"
  shows "call run fs ((dispatcher_with pat here base rel)\<lparr>pool := p, config := c\<rparr>) environ sr =
           \<lparr>returned = Inr [''Shutdown''],
            started = Some (''200 OK'', [(''content-type'', ''text/html'')]),
            dispatcher = (dispatcher_with pat here base rel)
                           \<lparr>pool := p, config := c(''server'' \<mapsto> srv\<lparr>stopped := True\<rparr>)\<rparr>\<rparr>"
proof -
  have "call_try run fs ((dispatcher_with pat here base rel)\<lparr>pool := p, config := c\<rparr>) environ sr =
           \<lparr>returned = Inr [''Shutdown''],
            started = Some (''200 OK'', [(''content-type'', ''text/html'')]),
            dispatcher = (dispatcher_with pat here base rel)
                           \<lparr>pool := p, config := c(''server'' \<mapsto> srv\<lparr>stopped := True\<rparr>)\<rparr>\<rparr>"
    using assms
    by (simp add: call_try_def environ_get_def dispatcher_with_def respond_def server_stop_def Let_def)
  then show ?thesis by (simp add: call_returns)
qed

lemma call_root:
  assumes "environ ''PATH_INFO'' = Some ''/''"
      and "sr None ''200 OK'' [(''content-type'', ''text/html'')] = None"
  shows "call run fs ((dispatcher_with pat here base rel)\<lparr>pool := p, config := c\<rparr>) environ sr =
           \<lparr>returned = Inr [encode_utf8 (root_content ((dispatcher_with pat here base rel)\<lparr>pool := p, config := c\<rparr>))],
            started = Some (''200 OK'', [(''content-type'', ''text/html'')]),
            dispatcher = (dispatcher_with pat here base rel)\<lparr>pool := p, config := c\<rparr>\<rparr>"
proof -
  have "call_try run fs ((dispatcher_with pat here base rel)\<lparr>pool := p, config := c\<rparr>) environ sr =
           \<lparr>returned = Inr [encode_utf8 (root_content ((dispatcher_with pat here base rel)\<lparr>pool := p, config := c\<rparr>))],
            started = Some (''200 OK'', [(''content-type'', ''text/html'')]),
            dispatcher = (dispatcher_with pat here base rel)\<lparr>pool := p, config := c\<rparr>\<rparr>"
    using assms
    by (simp add: call_try_def environ_get_def respond_def dispatcher_with_def Let_def)
  then show ?thesis by (simp add: call_returns)
qed

lemma call_favicon:
  assumes "environ ''PATH_INFO'' = Some ''/favicon.ico''"
      and "sr None ''200 OK'' [(''content-type'', ''image/x-icon'')] = None"
      and "fs (here @ ''/assets/favicon.ico'') = Some icon"
  shows "call run fs ((dispatcher_with pat here base rel)\<lparr>pool := p, config := c\<rparr>) environ sr =
           \<lparr>returned = Inr [icon],
            started = Some (''200 OK'', [(''content-type'', ''image/x-icon'')]),
            dispatcher = (dispatcher_with pat here base rel)\<lparr>pool := p, config := c\<rparr>\<rparr>"
proof -
  have "call_try run fs ((dispatcher_with pat here base rel)\<lparr>pool := p, config := c\<rparr>) environ sr =
           \<lparr>returned = Inr [icon],
            started = Some (''200 OK'', [(''content-type'', ''image/x-icon'')]),
            dispatcher = (dispatcher_with pat here base rel)\<lparr>pool := p, config := c\<rparr>\<rparr>"
    using assms
    by (simp add: call_try_def environ_get_def dispatcher_with_def respond_def Let_def)
  then show ?thesis by (simp add: call_returns)
qed

lemma prefixed_not_control:
  "''/'' @ b @ ''/shutdown'' \<noteq> ''/'' \<and> ''/'' @ b @ ''/shutdown'' \<noteq> ''/shutdown''
   \<and> ''/'' @ b @ ''/shutdown'' \<noteq> ''/favicon.ico''"
proof -
  have len: "length (''/'' @ b @ ''/shutdown'') = length b + 10" by simp
  have l: "last (''/'' @ b @ ''/shutdown'') = CHR ''n''" by simp
  have a: "''/'' @ b @ ''/shutdown'' \<noteq> ''/''"
  proof
    assume "''/'' @ b @ ''/shutdown'' = ''/''"
    then have "length (''/'' @ b @ ''/shutdown'') = length ''/''" by (rule arg_cong)
    then show False by simp
  qed
  have b: "''/'' @ b @ ''/shutdown'' \<noteq> ''/shutdown''"
  proof
    assume "''/'' @ b @ ''/shutdown'' = ''/shutdown''"
    then have "length (''/'' @ b @ ''/shutdown'') = length ''/shutdown''" by (rule arg_cong)
    then show False by simp
  qed
  have c: "''/'' @ b @ ''/shutdown'' \<noteq> ''/favicon.ico''"
  proof
    assume "''/'' @ b @ ''/shutdown'' = ''/favicon.ico''"
    then have "last (''/'' @ b @ ''/shutdown'') = last ''/favicon.ico''" by (rule arg_cong)
    then show False by simp
  qed
  from a b c show ?thesis by blast
qed

lemma respond_dispatcher: "dispatcher (respond sr d st hdrs body) = d"
  by (simp add: respond_def split: option.split)

lemma call_dispatcher: "dispatcher (call run fs d environ sr) = dispatcher (call_try run fs d environ sr)"
  by (cases "call_try run fs d environ sr")
     (simp add: call_def Let_def split: sum.split exn.split option.split)

lemma call_other_dispatcher:
  assumes "environ_get environ ''PATH_INFO'' [] \<noteq> root_path d"
      and "environ_get environ ''PATH_INFO'' [] \<noteq> shutdown_path d"
      and "environ_get environ ''PATH_INFO'' [] \<noteq> favicon_path d"
  shows "dispatcher (call_try run fs d environ sr) = d"
proof (cases "resolve d (environ_get environ ''PATH_INFO'' [])")
  case None
  with assms show ?thesis by (simp add: call_try_def respond_def split: option.split)
next
  case (Some found)
  obtain ctx_id w where found: "found = (ctx_id, w)" by (cases found)
  show ?thesis
  proof (cases "rewrite_path (DispatcherApp.base_url d) environ")
    case (Inl e)
    with assms Some found show ?thesis by (simp add: call_try_def)
  next
    case (Inr environ')
    with assms Some found show ?thesis
      by (cases "run w environ' sr") (simp add: call_try_def)
  qed
qed

section \<open>Control paths and the base URL\<close>

text \<open>
  C3, as the spec states it, fails: the three control paths are compared with the whole
  request path, so with base URL \<open>b\<close> the path \<open>/b/shutdown\<close> is no control path. It
  goes to the routing lookup, whose pattern captures \<open>shutdown\<close> as the session
  identifier; no session has that name, the answer is 400 and the server is not
  stopped.
\<close>

theorem prefixed_shutdown_counterexample:
  "(dispatcher_init (re_compile_plain (Some ''b'')) ''/srv'' (Some ''b'') False
      :: exn + nat DispatcherApp) = Inr (dispatcher_with (search (plain_app_pattern (Some ''b''))) ''/srv'' (Some ''b'') False)
   \<and> call (\<lambda>w e s. (Inr [], None)) Map.empty
      (((dispatcher_with (search (plain_app_pattern (Some ''b''))) ''/srv'' (Some ''b'') False) :: nat DispatcherApp)
        \<lparr>config := [''server'' \<mapsto> \<lparr>address = (''127.0.0.1'', 7001), stopped = False\<rparr>]\<rparr>)
      [''PATH_INFO'' \<mapsto> ''/b/shutdown'', ''REQUEST_METHOD'' \<mapsto> ''POST'']
      (\<lambda>acc st hs. None)
   = \<lparr>returned = Inr [''URL not supported: /b/shutdown''],
      started = Some (''400 BAD REQUEST ERROR'', [(''content-type'', ''text/html'')]),
      dispatcher = (dispatcher_with (search (plain_app_pattern (Some ''b''))) ''/srv'' (Some ''b'') False)
        \<lparr>config := [''server'' \<mapsto> \<lparr>address = (''127.0.0.1'', 7001), stopped = False\<rparr>]\<rparr>\<rparr>
   \<and> returned (call (\<lambda>w e s. (Inr [], None)) Map.empty
      (((dispatcher_with (search (plain_app_pattern (Some ''b''))) ''/srv'' (Some ''b'') False) :: nat DispatcherApp)
        \<lparr>config := [''server'' \<mapsto> \<lparr>address = (''127.0.0.1'', 7001), stopped = False\<rparr>]\<rparr>)
      [''PATH_INFO'' \<mapsto> ''/b/shutdown'', ''REQUEST_METHOD'' \<mapsto> ''POST'']
      (\<lambda>acc st hs. None)) \<noteq> Inr [''Shutdown'']"
proof -
  let ?d = "((dispatcher_with (search (plain_app_pattern (Some ''b''))) ''/srv'' (Some ''b'') False) :: nat DispatcherApp)
        \<lparr>config := [''server'' \<mapsto> \<lparr>address = (''127.0.0.1'', 7001), stopped = False\<rparr>]\<rparr>"
  have built: "(dispatcher_init (re_compile_plain (Some ''b'')) ''/srv'' (Some ''b'') False
      :: exn + nat DispatcherApp) = Inr (dispatcher_with (search (plain_app_pattern (Some ''b''))) ''/srv'' (Some ''b'') False)"
    by (rule dispatcher_init_plain) (simp add: plain_base_def metachars_def)
  have res: "resolve ?d ''/b/shutdown'' = None"
    by (simp add: resolve_def dispatcher_with_def plain_app_pattern_def segment_pattern_def
          startswith_def group_def)
  have "call_try (\<lambda>w e s. (Inr [], None)) Map.empty ?d
      [''PATH_INFO'' \<mapsto> ''/b/shutdown'', ''REQUEST_METHOD'' \<mapsto> ''POST'']
      (\<lambda>acc st hs. None)
   = \<lparr>returned = Inr [''URL not supported: '' @ encode_utf8 ''/b/shutdown''],
      started = Some (''400 BAD REQUEST ERROR'', [(''content-type'', ''text/html'')]),
      dispatcher = ?d\<rparr>"
    by (rule call_try_unsupported [where path_info = "''/b/shutdown''"])
       (simp_all add: res environ_get_def, simp_all add: dispatcher_with_def)
  then have "call (\<lambda>w e s. (Inr [], None)) Map.empty ?d
      [''PATH_INFO'' \<mapsto> ''/b/shutdown'', ''REQUEST_METHOD'' \<mapsto> ''POST'']
      (\<lambda>acc st hs. None)
   = \<lparr>returned = Inr [''URL not supported: /b/shutdown''],
      started = Some (''400 BAD REQUEST ERROR'', [(''content-type'', ''text/html'')]),
      dispatcher = ?d\<rparr>"
    by (simp add: call_returns encode_utf8_Cons utf8_char_def) (simp add: encode_utf8_def)
  with built show ?thesis by simp
qed

text \<open>
  C3, amended. The control paths are the fixed paths \<open>/\<close>, \<open>/shutdown\<close> and
  \<open>/favicon.ico\<close>, not paths under the base URL: for every base URL or none (and
  whatever pattern it compiled to), with a server stored in the config, a
  \<open>start_response\<close> that accepts and the icon file in place, a request for
  \<open>/shutdown\<close> stops the server and returns 200 with the body \<open>Shutdown\<close>, a request
  for \<open>/\<close> returns 200 with the status page and a request for \<open>/favicon.ico\<close> returns
  200 with the icon. A request for the shutdown path under the base URL \<open>b\<close>,
  \<open>/b/shutdown\<close>, leaves the dispatcher as it was: the server is not stopped.
\<close>

theorem control_paths_absolute:
  assumes srv: "c ''server'' = Some srv"
      and accept: "\<forall>st hs. sr None st hs = None"
      and icon: "fs (here @ ''/assets/favicon.ico'') = Some icon"
  shows "call run fs ((dispatcher_with pat here base rel)\<lparr>pool := p, config := c\<rparr>)
           (environ(''PATH_INFO'' \<mapsto> ''/shutdown'')) sr =
           \<lparr>returned = Inr [''Shutdown''],
            started = Some (''200 OK'', [(''content-type'', ''text/html'')]),
            dispatcher = (dispatcher_with pat here base rel)
                           \<lparr>pool := p, config := c(''server'' \<mapsto> srv\<lparr>stopped := True\<rparr>)\<rparr>\<rparr>
       \<and> call run fs ((dispatcher_with pat here base rel)\<lparr>pool := p, config := c\<rparr>)
           (environ(''PATH_INFO'' \<mapsto> ''/'')) sr =
           \<lparr>returned = Inr [encode_utf8 (root_content
                               ((dispatcher_with pat here base rel)\<lparr>pool := p, config := c\<rparr>))],
            started = Some (''200 OK'', [(''content-type'', ''text/html'')]),
            dispatcher = (dispatcher_with pat here base rel)\<lparr>pool := p, config := c\<rparr>\<rparr>
       \<and> call run fs ((dispatcher_with pat here base rel)\<lparr>pool := p, config := c\<rparr>)
           (environ(''PATH_INFO'' \<mapsto> ''/favicon.ico'')) sr =
           \<lparr>returned = Inr [icon],
            started = Some (''200 OK'', [(''content-type'', ''image/x-icon'')]),
            dispatcher = (dispatcher_with pat here base rel)\<lparr>pool := p, config := c\<rparr>\<rparr>
       \<and> dispatcher (call run fs ((dispatcher_with pat here (Some b) rel)\<lparr>pool := p, config := c\<rparr>)
           (environ(''PATH_INFO'' \<mapsto> ''/'' @ b @ ''/shutdown'')) sr) =
           (dispatcher_with pat here (Some b) rel)\<lparr>pool := p, config := c\<rparr>"
proof -
  have one: "call run fs ((dispatcher_with pat here base rel)\<lparr>pool := p, config := c\<rparr>)
           (environ(''PATH_INFO'' \<mapsto> ''/shutdown'')) sr =
           \<lparr>returned = Inr [''Shutdown''],
            started = Some (''200 OK'', [(''content-type'', ''text/html'')]),
            dispatcher = (dispatcher_with pat here base rel)
                           \<lparr>pool := p, config := c(''server'' \<mapsto> srv\<lparr>stopped := True\<rparr>)\<rparr>\<rparr>"
    using srv accept by (intro call_shutdown) simp_all
  have two: "call run fs ((dispatcher_with pat here base rel)\<lparr>pool := p, config := c\<rparr>)
           (environ(''PATH_INFO'' \<mapsto> ''/'')) sr =
           \<lparr>returned = Inr [encode_utf8 (root_content
                               ((dispatcher_with pat here base rel)\<lparr>pool := p, config := c\<rparr>))],
            started = Some (''200 OK'', [(''content-type'', ''text/html'')]),
            dispatcher = (dispatcher_with pat here base rel)\<lparr>pool := p, config := c\<rparr>\<rparr>"
    using accept by (intro call_root) simp_all
  have three: "call run fs ((dispatcher_with pat here base rel)\<lparr>pool := p, config := c\<rparr>)
           (environ(''PATH_INFO'' \<mapsto> ''/favicon.ico'')) sr =
           \<lparr>returned = Inr [icon],
            started = Some (''200 OK'', [(''content-type'', ''image/x-icon'')]),
            dispatcher = (dispatcher_with pat here base rel)\<lparr>pool := p, config := c\<rparr>\<rparr>"
    using accept icon by (intro call_favicon) simp_all
  let ?d = "(dispatcher_with pat here (Some b) rel)\<lparr>pool := p, config := c\<rparr>"
  let ?path = "''/'' @ b @ ''/shutdown''"
  have paths: "root_path ?d = ''/''" "shutdown_path ?d = ''/shutdown''"
    "favicon_path ?d = ''/favicon.ico''"
    by (simp_all add: dispatcher_with_def)
  have env: "environ_get (environ(''PATH_INFO'' \<mapsto> ?path)) ''PATH_INFO'' [] = ?path"
    by (simp add: environ_get_def)
  have "dispatcher (call_try run fs ?d (environ(''PATH_INFO'' \<mapsto> ?path)) sr) = ?d"
  proof (rule call_other_dispatcher)
    show "environ_get (environ(''PATH_INFO'' \<mapsto> ?path)) ''PATH_INFO'' [] \<noteq> root_path ?d"
      "environ_get (environ(''PATH_INFO'' \<mapsto> ?path)) ''PATH_INFO'' [] \<noteq> shutdown_path ?d"
      "environ_get (environ(''PATH_INFO'' \<mapsto> ?path)) ''PATH_INFO'' [] \<noteq> favicon_path ?d"
      unfolding paths env using prefixed_not_control [of b] by blast+
  qed
  then have four: "dispatcher (call run fs ?d (environ(''PATH_INFO'' \<mapsto> ?path)) sr) = ?d"
    by (simp only: call_dispatcher)
  from one two three four show ?thesis by blast
qed

theorem control_paths_absolute_witness:
  "[''server'' \<mapsto> \<lparr>address = (''127.0.0.1'', 7001), stopped = False\<rparr>] ''server''
     = Some \<lparr>address = (''127.0.0.1'', 7001), stopped = False\<rparr>
   \<and> (\<forall>st hs. (\<lambda>acc st hs. None :: exn option) None st hs = None)
   \<and> [''/srv/assets/favicon.ico'' \<mapsto> ''ICON''] (''/srv'' @ ''/assets/favicon.ico'') = Some ''ICON''
   \<and> call (\<lambda>w e s. (Inr [], None)) [''/srv/assets/favicon.ico'' \<mapsto> ''ICON'']
        ((dispatcher_with (search (plain_app_pattern (Some ''b''))) ''/srv'' (Some ''b'') False)
           \<lparr>pool := [(''42'', 7 :: nat)],
            config := [''server'' \<mapsto> \<lparr>address = (''127.0.0.1'', 7001), stopped = False\<rparr>]\<rparr>)
        (Map.empty(''PATH_INFO'' \<mapsto> ''/shutdown'')) (\<lambda>acc st hs. None)
      = \<lparr>returned = Inr [''Shutdown''],
         started = Some (''200 OK'', [(''content-type'', ''text/html'')]),
         dispatcher = (dispatcher_with (search (plain_app_pattern (Some ''b''))) ''/srv'' (Some ''b'') False)
           \<lparr>pool := [(''42'', 7 :: nat)],
            config := [''server'' \<mapsto> \<lparr>address = (''127.0.0.1'', 7001), stopped = True\<rparr>]\<rparr>\<rparr>
   \<and> returned (call (\<lambda>w e s. (Inr [], None)) [''/srv/assets/favicon.ico'' \<mapsto> ''ICON'']
        ((dispatcher_with (search (plain_app_pattern (Some ''b''))) ''/srv'' (Some ''b'') False)
           \<lparr>pool := [(''42'', 7 :: nat)],
            config := [''server'' \<mapsto> \<lparr>address = (''127.0.0.1'', 7001), stopped = False\<rparr>]\<rparr>)
        (Map.empty(''PATH_INFO'' \<mapsto> ''/favicon.ico'')) (\<lambda>acc st hs. None))
      = Inr [''ICON'']
   \<and> dispatcher (call (\<lambda>w e s. (Inr [], None)) [''/srv/assets/favicon.ico'' \<mapsto> ''ICON'']
        ((dispatcher_with (search (plain_app_pattern (Some ''b''))) ''/srv'' (Some ''b'') False)
           \<lparr>pool := [(''42'', 7 :: nat)],
            config := [''server'' \<mapsto> \<lparr>address = (''127.0.0.1'', 7001), stopped = False\<rparr>]\<rparr>)
        (Map.empty(''PATH_INFO'' \<mapsto> ''/b/shutdown'')) (\<lambda>acc st hs. None))
      = (dispatcher_with (search (plain_app_pattern (Some ''b''))) ''/srv'' (Some ''b'') False)
           \<lparr>pool := [(''42'', 7 :: nat)],
            config := [''server'' \<mapsto> \<lparr>address = (''127.0.0.1'', 7001), stopped = False\<rparr>]\<rparr>"
  using control_paths_absolute
    [where c = "[''server'' \<mapsto> \<lparr>address = (''127.0.0.1'', 7001), stopped = False\<rparr>]"
       and srv = "\<lparr>address = (''127.0.0.1'', 7001), stopped = False\<rparr>"
       and sr = "\<lambda>acc st hs. None" and fs = "[''/srv/assets/favicon.ico'' \<mapsto> ''ICON'']"
       and here = "''/srv''" and icon = "''ICON''" and p = "[(''42'', 7 :: nat)]"
       and run = "\<lambda>w e s. (Inr [], None)" and base = "Some ''b''" and rel = False
       and environ = Map.empty and b = "''b''"
       and pat = "search (plain_app_pattern (Some ''b''))"]
  by simp

section \<open>Unsupported paths\<close>

text \<open>
  C4. A request whose path is none of the three control paths and which the routing
  lookup does not resolve (no match of the pattern, or no pool entry under the first
  group) is answered, when \<open>start_response\<close> accepts the status, with
  \<open>400 BAD REQUEST ERROR\<close> and the body \<open>URL not supported: \<close> followed by the path,
  encoded as UTF-8; the encoding of a path of ASCII characters is the path itself.
\<close>

theorem unsupported_path_400:
  assumes "environ_get environ ''PATH_INFO'' [] = path_info"
      and "path_info \<noteq> root_path d" and "path_info \<noteq> shutdown_path d"
      and "path_info \<noteq> favicon_path d"
      and "resolve d path_info = None"
      and "sr None ''400 BAD REQUEST ERROR'' [(''content-type'', ''text/html'')] = None"
  shows "call run fs d environ sr =
           \<lparr>returned = Inr [''URL not supported: '' @ encode_utf8 path_info],
            started = Some (''400 BAD REQUEST ERROR'', [(''content-type'', ''text/html'')]),
            dispatcher = d\<rparr>
         \<and> ((\<forall>c \<in> set path_info. (of_char c :: nat) < 128) \<longrightarrow> encode_utf8 path_info = path_info)"
  using assms call_try_unsupported [of environ path_info d sr run fs]
    encode_utf8_ascii [of path_info]
  by (simp add: call_returns)

theorem unsupported_path_400_witness:
  "environ_get [''PATH_INFO'' \<mapsto> ''/unknown/''] ''PATH_INFO'' [] = ''/unknown/''
   \<and> ''/unknown/'' \<noteq> root_path ((dispatcher_with (search (plain_app_pattern None)) ''/srv'' None False)\<lparr>pool := [(''42'', 7 :: nat)]\<rparr>)
   \<and> ''/unknown/'' \<noteq> shutdown_path ((dispatcher_with (search (plain_app_pattern None)) ''/srv'' None False)\<lparr>pool := [(''42'', 7 :: nat)]\<rparr>)
   \<and> ''/unknown/'' \<noteq> favicon_path ((dispatcher_with (search (plain_app_pattern None)) ''/srv'' None False)\<lparr>pool := [(''42'', 7 :: nat)]\<rparr>)
   \<and> resolve ((dispatcher_with (search (plain_app_pattern None)) ''/srv'' None False)\<lparr>pool := [(''42'', 7 :: nat)]\<rparr>) ''/unknown/'' = None
   \<and> (\<lambda>acc st hs. None :: exn option) None ''400 BAD REQUEST ERROR'' [(''content-type'', ''text/html'')] = None
   \<and> call (\<lambda>w e s. (Inr [], None)) Map.empty
        ((dispatcher_with (search (plain_app_pattern None)) ''/srv'' None False)\<lparr>pool := [(''42'', 7 :: nat)]\<rparr>)
        [''PATH_INFO'' \<mapsto> ''/unknown/''] (\<lambda>acc st hs. None)
      = \<lparr>returned = Inr [''URL not supported: /unknown/''],
         started = Some (''400 BAD REQUEST ERROR'', [(''content-type'', ''text/html'')]),
         dispatcher = (dispatcher_with (search (plain_app_pattern None)) ''/srv'' None False)\<lparr>pool := [(''42'', 7 :: nat)]\<rparr>\<rparr>"
proof -
  have res: "resolve ((dispatcher_with (search (plain_app_pattern None)) ''/srv'' None False)\<lparr>pool := [(''42'', 7 :: nat)]\<rparr>) ''/unknown/'' = None"
    by (simp add: resolve_def dispatcher_with_def plain_app_pattern_def segment_pattern_def
          startswith_def group_def)
  have paths: "''/unknown/'' \<noteq> root_path ((dispatcher_with (search (plain_app_pattern None)) ''/srv'' None False)\<lparr>pool := [(''42'', 7 :: nat)]\<rparr>)"
    "''/unknown/'' \<noteq> shutdown_path ((dispatcher_with (search (plain_app_pattern None)) ''/srv'' None False)\<lparr>pool := [(''42'', 7 :: nat)]\<rparr>)"
    "''/unknown/'' \<noteq> favicon_path ((dispatcher_with (search (plain_app_pattern None)) ''/srv'' None False)\<lparr>pool := [(''42'', 7 :: nat)]\<rparr>)"
    by (simp_all add: dispatcher_with_def)
  have env: "environ_get [''PATH_INFO'' \<mapsto> ''/unknown/''] ''PATH_INFO'' [] = ''/unknown/''"
    by (simp add: environ_get_def)
  have enc: "encode_utf8 ''/unknown/'' = ''/unknown/''"
    by (simp add: encode_utf8_Cons utf8_char_def) (simp add: encode_utf8_def)
  show ?thesis
    using unsupported_path_400
      [where environ = "[''PATH_INFO'' \<mapsto> ''/unknown/'']" and path_info = "''/unknown/''"
         and d = "(dispatcher_with (search (plain_app_pattern None)) ''/srv'' None False)\<lparr>pool := [(''42'', 7 :: nat)]\<rparr>"
         and sr = "\<lambda>acc st hs. None" and run = "\<lambda>w e s. (Inr [], None)" and fs = Map.empty]
      env paths res
    by (simp add: enc)
qed

section \<open>Errors while a response is produced\<close>

text \<open>
  C5. \<open>__call__\<close> never raises an \<open>Exception\<close>. When the body of its \<open>try\<close> raises
  one, whatever its class and message, the call returns the one fixed body; when
  \<open>start_response\<close> accepts the status line of the handler, the response is
  \<open>500 INTERNAL SERVER ERROR\<close> with that body.
\<close>

theorem internal_error_500:
  "returned (call run fs d environ sr) \<noteq> Inl (Error cls msg)
   \<and> (returned (call_try run fs d environ sr) = Inl (Error cls msg) \<longrightarrow>
        (sr (started (call_try run fs d environ sr)) ''500 INTERNAL SERVER ERROR''
            [(''Content-Type'', ''text/plain'')] = None \<longrightarrow>
           call run fs d environ sr =
             \<lparr>returned = Inr [internal_error_body],
              started = Some (''500 INTERNAL SERVER ERROR'', [(''Content-Type'', ''text/plain'')]),
              dispatcher = dispatcher (call_try run fs d environ sr)\<rparr>)
        \<and> ((\<forall>x. sr (started (call_try run fs d environ sr)) ''500 INTERNAL SERVER ERROR''
                  [(''Content-Type'', ''text/plain'')] \<noteq> Some (Exit x)) \<longrightarrow>
             returned (call run fs d environ sr) = Inr [internal_error_body]))"
  by (cases "call_try run fs d environ sr")
     (auto simp: call_def Let_def split: sum.splits exn.splits option.splits)

theorem internal_error_500_witness:
  "returned (call_try (\<lambda>w e s. (Inl (Error ''ValueError'' ''secret''), None)) Map.empty
        ((dispatcher_with (search (plain_app_pattern None)) ''/srv'' None False)\<lparr>pool := [(''42'', 7 :: nat)]\<rparr>)
        [''PATH_INFO'' \<mapsto> ''/42/''] (\<lambda>acc st hs. None))
     = Inl (Error ''ValueError'' ''secret'')
   \<and> call (\<lambda>w e s. (Inl (Error ''ValueError'' ''secret''), None)) Map.empty
        ((dispatcher_with (search (plain_app_pattern None)) ''/srv'' None False)\<lparr>pool := [(''42'', 7 :: nat)]\<rparr>)
        [''PATH_INFO'' \<mapsto> ''/42/''] (\<lambda>acc st hs. None)
      = \<lparr>returned = Inr [''Internal Server Error caught by Dispatcher. See logs if available.''],
         started = Some (''500 INTERNAL SERVER ERROR'', [(''Content-Type'', ''text/plain'')]),
         dispatcher = (dispatcher_with (search (plain_app_pattern None)) ''/srv'' None False)\<lparr>pool := [(''42'', 7 :: nat)]\<rparr>\<rparr>"
proof -
  have res: "resolve ((dispatcher_with (search (plain_app_pattern None)) ''/srv'' None False)\<lparr>pool := [(''42'', 7 :: nat)]\<rparr>) ''/42/''
               = Some (''42'', 7)"
    by (simp add: resolve_def dispatcher_with_def plain_app_pattern_def segment_pattern_def
          startswith_def group_def)
  have fields:
    "root_path ((dispatcher_with (search (plain_app_pattern None)) ''/srv'' None False)\<lparr>pool := [(''42'', 7 :: nat)]\<rparr>) = ''/''"
    "shutdown_path ((dispatcher_with (search (plain_app_pattern None)) ''/srv'' None False)\<lparr>pool := [(''42'', 7 :: nat)]\<rparr>) = ''/shutdown''"
    "favicon_path ((dispatcher_with (search (plain_app_pattern None)) ''/srv'' None False)\<lparr>pool := [(''42'', 7 :: nat)]\<rparr>) = ''/favicon.ico''"
    "DispatcherApp.base_url ((dispatcher_with (search (plain_app_pattern None)) ''/srv'' None False)\<lparr>pool := [(''42'', 7 :: nat)]\<rparr>) = None"
    by (simp_all add: dispatcher_with_def)
  have tried: "call_try (\<lambda>w e s. (Inl (Error ''ValueError'' ''secret''), None)) Map.empty
        ((dispatcher_with (search (plain_app_pattern None)) ''/srv'' None False)\<lparr>pool := [(''42'', 7 :: nat)]\<rparr>)
        [''PATH_INFO'' \<mapsto> ''/42/''] (\<lambda>acc st hs. None)
      = \<lparr>returned = Inl (Error ''ValueError'' ''secret''), started = None,
         dispatcher = (dispatcher_with (search (plain_app_pattern None)) ''/srv'' None False)\<lparr>pool := [(''42'', 7 :: nat)]\<rparr>\<rparr>"
    by (simp add: call_try_def environ_get_def res rewrite_path_def Let_def fields)
  show ?thesis
    using internal_error_500
      [where run = "\<lambda>w e s. (Inl (Error ''ValueError'' ''secret''), None)" and fs = Map.empty
         and d = "(dispatcher_with (search (plain_app_pattern None)) ''/srv'' None False)\<lparr>pool := [(''42'', 7 :: nat)]\<rparr>"
         and environ = "[''PATH_INFO'' \<mapsto> ''/42/'']" and sr = "\<lambda>acc st hs. None"
         and cls = "''ValueError''" and msg = "''secret''"]
    by (simp add: tried internal_error_body_def)
qed

text \<open>
  An error of the dispatcher's own: a shutdown request before any server is stored in
  the config. The subscript raises \<open>KeyError\<close>, the handler answers 500.
\<close>

lemma shutdown_without_server_example:
  "call (\<lambda>w e s. (Inr [], None)) Map.empty
     ((dispatcher_with (search (plain_app_pattern None)) ''/srv'' None False) :: nat DispatcherApp)
     [''PATH_INFO'' \<mapsto> ''/shutdown''] (\<lambda>acc st hs. None)
   = \<lparr>returned = Inr [internal_error_body],
      started = Some (''500 INTERNAL SERVER ERROR'', [(''Content-Type'', ''text/plain'')]),
      dispatcher = (dispatcher_with (search (plain_app_pattern None)) ''/srv'' None False)\<rparr>"
  by (simp add: call_def call_try_def environ_get_def dispatcher_with_def Let_def)

section \<open>Shutdown does not look at the method\<close>

text \<open>
  C6. With a server stored in the config and a \<open>start_response\<close> that accepts, a
  request for \<open>/shutdown\<close> stops the server and returns 200 with the body \<open>Shutdown\<close>
  whatever its method and whoever sent it: the environ's \<open>REQUEST_METHOD\<close> and
  \<open>REMOTE_ADDR\<close> may hold anything, \<open>GET\<close> from another host included.
\<close>

theorem shutdown_any_method:
  assumes srv: "c ''server'' = Some srv"
      and accept: "sr None ''200 OK'' [(''content-type'', ''text/html'')] = None"
  shows "call run fs ((dispatcher_with pat here base rel)\<lparr>pool := p, config := c\<rparr>)
           (environ(''PATH_INFO'' \<mapsto> ''/shutdown'', ''REQUEST_METHOD'' \<mapsto> m, ''REMOTE_ADDR'' \<mapsto> a)) sr =
           \<lparr>returned = Inr [''Shutdown''],
            started = Some (''200 OK'', [(''content-type'', ''text/html'')]),
            dispatcher = (dispatcher_with pat here base rel)
                           \<lparr>pool := p, config := c(''server'' \<mapsto> srv\<lparr>stopped := True\<rparr>)\<rparr>\<rparr>"
  using srv accept by (intro call_shutdown) simp_all

theorem shutdown_any_method_witness:
  "[''server'' \<mapsto> \<lparr>address = (''127.0.0.1'', 7001), stopped = False\<rparr>] ''server''
     = Some \<lparr>address = (''127.0.0.1'', 7001), stopped = False\<rparr>
   \<and> (\<lambda>acc st hs. None :: exn option) None ''200 OK'' [(''content-type'', ''text/html'')] = None
   \<and> call (\<lambda>w e s. (Inr [], None)) Map.empty
        ((dispatcher_with (search (plain_app_pattern None)) ''/srv'' None False)
           \<lparr>pool := [(''42'', 7 :: nat)],
            config := [''server'' \<mapsto> \<lparr>address = (''127.0.0.1'', 7001), stopped = False\<rparr>]\<rparr>)
        (Map.empty(''PATH_INFO'' \<mapsto> ''/shutdown'', ''REQUEST_METHOD'' \<mapsto> ''GET'',
                   ''REMOTE_ADDR'' \<mapsto> ''203.0.113.9''))
        (\<lambda>acc st hs. None)
      = \<lparr>returned = Inr [''Shutdown''],
         started = Some (''200 OK'', [(''content-type'', ''text/html'')]),
         dispatcher = (dispatcher_with (search (plain_app_pattern None)) ''/srv'' None False)
           \<lparr>pool := [(''42'', 7 :: nat)],
            config := [''server'' \<mapsto> \<lparr>address = (''127.0.0.1'', 7001), stopped = True\<rparr>]\<rparr>\<rparr>"
  using shutdown_any_method
    [where c = "[''server'' \<mapsto> \<lparr>address = (''127.0.0.1'', 7001), stopped = False\<rparr>]"
       and srv = "\<lparr>address = (''127.0.0.1'', 7001), stopped = False\<rparr>"
       and sr = "\<lambda>acc st hs. None" and run = "\<lambda>w e s. (Inr [], None)" and fs = Map.empty
       and here = "''/srv''" and base = None and rel = False and p = "[(''42'', 7 :: nat)]"
       and environ = Map.empty and m = "''GET''" and a = "''203.0.113.9''"
       and pat = "search (plain_app_pattern None)"]
  by simp

section \<open>Dispatch leaves the registry alone\<close>

lemma call_try_frame:
  "dispatcher (call_try run fs d environ sr) = d\<lparr>config := config (dispatcher (call_try run fs d environ sr))\<rparr>"
proof -
  let ?p = "environ_get environ ''PATH_INFO'' []"
  consider (root) "?p = root_path d"
    | (shutdown) "?p \<noteq> root_path d" "?p = shutdown_path d"
    | (favicon) "?p \<noteq> root_path d" "?p \<noteq> shutdown_path d" "?p = favicon_path d"
    | (route) "?p \<noteq> root_path d" "?p \<noteq> shutdown_path d" "?p \<noteq> favicon_path d"
    by blast
  then show ?thesis
  proof cases
    case root
    then show ?thesis by (simp add: call_try_def respond_dispatcher)
  next
    case shutdown
    then show ?thesis
      by (cases "config d ''server''") (simp_all add: call_try_def respond_dispatcher)
  next
    case favicon
    then show ?thesis by (simp add: call_try_def respond_dispatcher)
  next
    case route
    show ?thesis
    proof (cases "resolve d ?p")
      case None
      with route show ?thesis by (simp add: call_try_def respond_dispatcher)
    next
      case (Some found)
      obtain ctx_id w where found: "found = (ctx_id, w)" by (cases found)
      show ?thesis
      proof (cases "rewrite_path (DispatcherApp.base_url d) environ")
        case (Inl e)
        with route Some found show ?thesis by (simp add: call_try_def)
      next
        case (Inr environ')
        with route Some found show ?thesis
          by (cases "run w environ' sr") (simp add: call_try_def)
      qed
    qed
  qed
qed

text \<open>
  C9. Whatever the request and however it ends (200, 400, 500, a session's own
  response, an exit passing through), the dispatcher after \<open>__call__\<close> has the pool it
  had before: of its fields only the config, whose server a shutdown request stops, can
  differ. The pool changes in \<open>register\<close> alone.
\<close>

theorem dispatch_preserves_registry:
  "pool (dispatcher (call run fs d environ sr)) = pool d
   \<and> dispatcher (call run fs d environ sr) = d\<lparr>config := config (dispatcher (call run fs d environ sr))\<rparr>"
proof -
  have frame: "dispatcher (call run fs d environ sr) = d\<lparr>config := config (dispatcher (call run fs d environ sr))\<rparr>"
    using call_try_frame [of run fs d environ sr] by (simp add: call_dispatcher)
  then obtain c where "dispatcher (call run fs d environ sr) = d\<lparr>config := c\<rparr>"
    by blast
  then have "pool (dispatcher (call run fs d environ sr)) = pool d"
    by simp
  with frame show ?thesis by blast
qed

section \<open>A stop that times out\<close>

lemma join_alive: "is_alive (thread_join (t\<lparr>exits_in := e\<rparr>) 5) = (case e of None \<Rightarrow> True | Some x \<Rightarrow> 5 < x)"
  by (auto simp add: is_alive_def thread_join_def max_def split: option.split)

lemma str_int_7001: "str_int 7001 = ''7001''"
  by (simp add: str_int_def str_nat.simps digit_chars)

lemma status_thread_alive:
  "case status get r of
     Inr s \<Rightarrow> thread_alive s = (case thread r of None \<Rightarrow> False | Some u \<Rightarrow> is_alive u)
   | Inl e \<Rightarrow> get (runner_url r []) = Some e \<and> \<not> is_request_exception e"
  by (cases "get (runner_url r [])")
     (simp_all add: status_def ping_def build_path_def)

text \<open>
  C7. On a started runner whose shutdown request went through, when the thread has
  not ended 5 seconds into the join, \<open>stop\<close> returns \<open>False\<close> and keeps the thread
  handle, whose thread is alive. The \<open>thread_alive\<close> field of \<open>status\<close> is the
  liveness of the thread whose handle the runner holds, read when \<open>status\<close> is called:
  true on the runner \<open>stop\<close> leaves, true or false afterwards as that thread is alive
  or has ended, and false on a runner without a handle (\<open>status\<close> returns unless its
  ping raises something other than a request exception).
\<close>

theorem stop_timeout_observable:
  assumes started: "thread r = Some t"
      and posted: "post (runner_url r ''shutdown'') = None"
      and late: "case then_exits of None \<Rightarrow> True | Some x \<Rightarrow> 5 < x"
  shows "\<exists>t'. stop post then_exits r = Inr (False, r\<lparr>thread := Some t'\<rparr>)
           \<and> t' = thread_join (t\<lparr>exits_in := then_exits\<rparr>) 5
           \<and> is_alive t'
           \<and> (\<forall>get. case status get (r\<lparr>thread := Some t'\<rparr>) of
                       Inr s \<Rightarrow> thread_alive s
                     | Inl e \<Rightarrow> get (runner_url r []) = Some e \<and> \<not> is_request_exception e)
           \<and> (\<forall>get u. case status get (r\<lparr>thread := Some u\<rparr>) of
                       Inr s \<Rightarrow> thread_alive s = is_alive u
                     | Inl e \<Rightarrow> get (runner_url r []) = Some e \<and> \<not> is_request_exception e)
           \<and> (\<forall>get. case status get (r\<lparr>thread := None\<rparr>) of
                       Inr s \<Rightarrow> \<not> thread_alive s
                     | Inl e \<Rightarrow> get (runner_url r []) = Some e \<and> \<not> is_request_exception e)"
proof -
  let ?t' = "thread_join (t\<lparr>exits_in := then_exits\<rparr>) 5"
  have alive: "is_alive ?t'"
    using late by (simp add: join_alive)
  have st: "stop post then_exits r = Inr (False, r\<lparr>thread := Some ?t'\<rparr>)"
    using started posted alive by (simp add: stop_def build_path_def Let_def)
  have url: "runner_url (r\<lparr>thread := x\<rparr>) [] = runner_url r []" for x
    by (simp add: runner_url_def)
  have exact: "case status get (r\<lparr>thread := Some u\<rparr>) of
                       Inr s \<Rightarrow> thread_alive s = is_alive u
                     | Inl e \<Rightarrow> get (runner_url r []) = Some e \<and> \<not> is_request_exception e"
    for get u
    using status_thread_alive [of get "r\<lparr>thread := Some u\<rparr>"]
    by (cases "status get (r\<lparr>thread := Some u\<rparr>)") (simp_all add: url)
  have none: "case status get (r\<lparr>thread := None\<rparr>) of
                       Inr s \<Rightarrow> \<not> thread_alive s
                     | Inl e \<Rightarrow> get (runner_url r []) = Some e \<and> \<not> is_request_exception e"
    for get
    using status_thread_alive [of get "r\<lparr>thread := None\<rparr>"]
    by (cases "status get (r\<lparr>thread := None\<rparr>)") (simp_all add: url)
  have obs: "case status get (r\<lparr>thread := Some ?t'\<rparr>) of
                       Inr s \<Rightarrow> thread_alive s
                     | Inl e \<Rightarrow> get (runner_url r []) = Some e \<and> \<not> is_request_exception e"
    for get
    using exact [of get ?t'] alive
    by (cases "status get (r\<lparr>thread := Some ?t'\<rparr>)") simp_all
  from alive st obs exact none show ?thesis by blast
qed

theorem stop_timeout_observable_witness:
  "thread (\<lparr>app = (dispatcher_with (search (plain_app_pattern None)) ''/srv'' None False), base_url = None, use_relative_links = False,
            thread = Some \<lparr>exits_in = None\<rparr>, ip = ''127.0.0.1'', port = 7001\<rparr> :: nat AppRunner)
     = Some \<lparr>exits_in = None\<rparr>
   \<and> (\<lambda>url. if url = ''http://127.0.0.1:7001/shutdown'' then None
              else Some (Error ''RequestException'' ''no route''))
        (runner_url (\<lparr>app = (dispatcher_with (search (plain_app_pattern None)) ''/srv'' None False), base_url = None,
            use_relative_links = False, thread = Some \<lparr>exits_in = None\<rparr>,
            ip = ''127.0.0.1'', port = 7001\<rparr> :: nat AppRunner) ''shutdown'') = None
   \<and> (case Some (7.5 :: real) of None \<Rightarrow> True | Some x \<Rightarrow> 5 < x)
   \<and> stop (\<lambda>url. if url = ''http://127.0.0.1:7001/shutdown'' then None
                  else Some (Error ''RequestException'' ''no route'')) (Some 7.5)
        (\<lparr>app = (dispatcher_with (search (plain_app_pattern None)) ''/srv'' None False), base_url = None, use_relative_links = False,
          thread = Some \<lparr>exits_in = None\<rparr>, ip = ''127.0.0.1'', port = 7001\<rparr> :: nat AppRunner)
      = Inr (False,
          \<lparr>app = (dispatcher_with (search (plain_app_pattern None)) ''/srv'' None False), base_url = None, use_relative_links = False,
            thread = Some \<lparr>exits_in = Some 2.5\<rparr>, ip = ''127.0.0.1'', port = 7001\<rparr>)
   \<and> status (\<lambda>url. Some (Error ''RequestException'' ''refused''))
        (\<lparr>app = (dispatcher_with (search (plain_app_pattern None)) ''/srv'' None False), base_url = None, use_relative_links = False,
          thread = Some \<lparr>exits_in = Some 2.5\<rparr>, ip = ''127.0.0.1'', port = 7001\<rparr> :: nat AppRunner)
      = Inr \<lparr>addr = (''127.0.0.1'', 7001), status_base_url = None,
             status_use_relative_links = False, thread_alive = True, http_reachable = False\<rparr>
   \<and> status (\<lambda>url. Some (Error ''RequestException'' ''refused''))
        (\<lparr>app = (dispatcher_with (search (plain_app_pattern None)) ''/srv'' None False), base_url = None, use_relative_links = False,
          thread = Some \<lparr>exits_in = Some 0\<rparr>, ip = ''127.0.0.1'', port = 7001\<rparr> :: nat AppRunner)
      = Inr \<lparr>addr = (''127.0.0.1'', 7001), status_base_url = None,
             status_use_relative_links = False, thread_alive = False, http_reachable = False\<rparr>"
proof -
  let ?r = "\<lparr>app = (dispatcher_with (search (plain_app_pattern None)) ''/srv'' None False), base_url = None,
            use_relative_links = False, thread = Some \<lparr>exits_in = None\<rparr>,
            ip = ''127.0.0.1'', port = 7001\<rparr> :: nat AppRunner"
  let ?post = "\<lambda>url. if url = ''http://127.0.0.1:7001/shutdown'' then None
              else Some (Error ''RequestException'' ''no route'')"
  have url: "runner_url ?r ''shutdown'' = ''http://127.0.0.1:7001/shutdown''"
    by (simp add: runner_url_def str_int_7001)
  have started: "thread ?r = Some \<lparr>exits_in = None\<rparr>"
    by simp
  have posted: "?post (runner_url ?r ''shutdown'') = None"
    by (simp only: url refl if_True)
  have late: "case Some (7.5 :: real) of None \<Rightarrow> True | Some x \<Rightarrow> 5 < x"
    by simp
  have joined: "thread_join (\<lparr>exits_in = None\<rparr>\<lparr>exits_in := Some 7.5\<rparr>) 5 = \<lparr>exits_in = Some 2.5\<rparr>"
    by (simp add: thread_join_def)
  from stop_timeout_observable
    [where r = ?r and t = "\<lparr>exits_in = None\<rparr>" and post = ?post and then_exits = "Some 7.5",
     OF started posted late]
  have stopped: "stop ?post (Some 7.5) ?r =
      Inr (False, ?r\<lparr>thread := Some (thread_join (\<lparr>exits_in = None\<rparr>\<lparr>exits_in := Some 7.5\<rparr>) 5)\<rparr>)"
    by blast
  have observed: "status (\<lambda>url. Some (Error ''RequestException'' ''refused''))
        (\<lparr>app = (dispatcher_with (search (plain_app_pattern None)) ''/srv'' None False), base_url = None, use_relative_links = False,
          thread = Some \<lparr>exits_in = Some 2.5\<rparr>, ip = ''127.0.0.1'', port = 7001\<rparr> :: nat AppRunner)
      = Inr \<lparr>addr = (''127.0.0.1'', 7001), status_base_url = None,
             status_use_relative_links = False, thread_alive = True, http_reachable = False\<rparr>"
    by (simp add: status_def ping_def is_request_exception_def is_alive_def)
  have ended: "status (\<lambda>url. Some (Error ''RequestException'' ''refused''))
        (\<lparr>app = (dispatcher_with (search (plain_app_pattern None)) ''/srv'' None False), base_url = None, use_relative_links = False,
          thread = Some \<lparr>exits_in = Some 0\<rparr>, ip = ''127.0.0.1'', port = 7001\<rparr> :: nat AppRunner)
      = Inr \<lparr>addr = (''127.0.0.1'', 7001), status_base_url = None,
             status_use_relative_links = False, thread_alive = False, http_reachable = False\<rparr>"
    by (simp add: status_def ping_def is_request_exception_def is_alive_def)
  show ?thesis
    using started posted late observed ended stopped [unfolded joined] by simp
qed

end
